theory Spec2Isabelle
  imports Main "HOL-Library.AList" "HOL-Library.Char_ord" "HOL-Library.List_Lexorder"
begin

section \<open>Errors and outcomes\<close>

text \<open>
  Go reports failure through a returned \<open>error\<close> value; \<open>nil\<close> is \<open>None\<close>.
  \<open>ErrorString\<close> is what \<open>errors.New\<close> builds.  The other constructors stand for
  the errors of the libraries the code calls.
\<close>

datatype os_error = ErrNotExist | ErrPermission | ErrIsDir

datatype error =
    ErrorString string
  | PathError os_error
  | EOF
  | SyntaxError
  | UnknownField string
  | UnmarshalTypeError string
  | RandError
  | BcryptError
  | TermError
  | ContextCanceled
  | EngineError string
  | ErrTagMismatch
  | ErrNotFound
  | Internal

text \<open>
  A call of the command-line tool either returns, or ends the process: a runtime panic,
  \<open>log.Fatalf\<close>, or \<open>os.Exit\<close>.
\<close>

datatype 'a outcome = Returns 'a | Panic string | Fatal string | Exit int

section \<open>galenectl: the configuration file\<close>

record configuration =
  Server :: string
  AdminUsername :: string
  AdminPassword :: string
  AdminToken :: string

definition zero_configuration :: configuration where
  "zero_configuration =
     \<lparr>Server = [], AdminUsername = [], AdminPassword = [], AdminToken = []\<rparr>"

definition IsNotExist :: "os_error \<Rightarrow> bool" where
  "IsNotExist e = (e = ErrNotExist)"

text \<open>
  \<open>readConfig\<close> opens the file and hands it to a JSON decoder that refuses unknown
  fields.  The file system is the function \<open>os_Open\<close>; the decoder is the function
  \<open>Decode\<close>, which receives the file and the variable \<open>config\<close> it decodes into, and
  returns that variable as it left it together with its error.  On every path the
  function returns the variable \<open>config\<close>, never a fresh zero value.
\<close>

definition readConfig ::
  "(string \<Rightarrow> os_error + 'f) \<Rightarrow> ('f \<Rightarrow> configuration \<Rightarrow> configuration \<times> error option) \<Rightarrow>
   string \<Rightarrow> configuration \<times> error option" where
  "readConfig os_Open Decode filename =
     (let config = zero_configuration in
      case os_Open filename of
        Inl err \<Rightarrow>
          if IsNotExist err then (config, None) else (config, Some (PathError err))
      | Inr f \<Rightarrow>
          (case Decode f config of
             (config', Some err) \<Rightarrow> (config', Some err)
           | (config', None) \<Rightarrow> (config', None)))"

subsection \<open>The decoder of the standard library\<close>

text \<open>
  What \<open>encoding/json\<close> does when it decodes into a struct of string fields with
  \<open>DisallowUnknownFields\<close>, on a body that is already split into JSON values.  An
  empty body is the error \<open>EOF\<close>, and a body that is not one JSON value is a syntax
  error, both found before anything is stored.  In an object the members are stored one
  after the other; a member whose key names no field, or whose value is not a string,
  records an error and decoding goes on with the next member; the first recorded error
  is returned once the object is finished.
\<close>

datatype json =
    JNull
  | JBool bool
  | JNumber int
  | JString string
  | JArray "json list"
  | JObject "(string \<times> json) list"

datatype body = Empty | Malformed | Document json

text \<open>
  A key names a field when the two are equal after folding case.  The fold maps the
  ASCII letters to upper case; beyond ASCII, the long s (bytes C5 BF) folds to \<open>S\<close>
  and the Kelvin sign (bytes E2 84 AA) to \<open>K\<close>.  Every other character beyond ASCII
  folds to a character beyond ASCII, so it never equals a letter of a field name, and
  its bytes are left as they are.
\<close>

definition upper_byte :: "char \<Rightarrow> char" where
  "upper_byte c =
     (if CHR ''a'' \<le> c \<and> c \<le> CHR ''z'' then char_of (of_char c - (32::nat)) else c)"

fun foldName :: "string \<Rightarrow> string" where
  "foldName (c1 # c2 # c3 # cs) =
     (if c1 = CHR 0xE2 \<and> c2 = CHR 0x84 \<and> c3 = CHR 0xAA then CHR ''K'' # foldName cs
      else if c1 = CHR 0xC5 \<and> c2 = CHR 0xBF then CHR ''S'' # foldName (c3 # cs)
      else upper_byte c1 # foldName (c2 # c3 # cs))"
| "foldName [c1, c2] =
     (if c1 = CHR 0xC5 \<and> c2 = CHR 0xBF then [CHR ''S'']
      else upper_byte c1 # foldName [c2])"
| "foldName [c1] = [upper_byte c1]"
| "foldName [] = []"

definition set_field :: "string \<Rightarrow> string \<Rightarrow> configuration \<Rightarrow> configuration option" where
  "set_field key s config =
     (if foldName key = ''SERVER'' then Some (config\<lparr>Server := s\<rparr>)
      else if foldName key = ''ADMIN-USERNAME'' then Some (config\<lparr>AdminUsername := s\<rparr>)
      else if foldName key = ''ADMIN-PASSWORD'' then Some (config\<lparr>AdminPassword := s\<rparr>)
      else if foldName key = ''ADMIN-TOKEN'' then Some (config\<lparr>AdminToken := s\<rparr>)
      else None)"

definition saveError :: "error \<Rightarrow> error option \<Rightarrow> error option" where
  "saveError e saved = (case saved of None \<Rightarrow> Some e | Some e' \<Rightarrow> Some e')"

fun decode_members ::
  "(string \<times> json) list \<Rightarrow> configuration \<times> error option \<Rightarrow> configuration \<times> error option" where
  "decode_members [] acc = acc"
| "decode_members ((key, v) # kvs) (config, saved) =
     (case set_field key [] config of
        None \<Rightarrow> decode_members kvs (config, saveError (UnknownField key) saved)
      | Some _ \<Rightarrow>
          (case v of
             JString s \<Rightarrow> decode_members kvs (the (set_field key s config), saved)
           | JNull \<Rightarrow> decode_members kvs (config, saved)
           | _ \<Rightarrow> decode_members kvs (config, saveError (UnmarshalTypeError key) saved)))"

definition json_Decode :: "body \<Rightarrow> configuration \<Rightarrow> configuration \<times> error option" where
  "json_Decode b config =
     (case b of
        Empty \<Rightarrow> (config, Some EOF)
      | Malformed \<Rightarrow> (config, Some SyntaxError)
      | Document (JObject kvs) \<Rightarrow> decode_members kvs (config, None)
      | Document JNull \<Rightarrow> (config, None)
      | Document _ \<Rightarrow> (config, Some (UnmarshalTypeError [])))"

text \<open>The keys that name a field of \<open>configuration\<close>.\<close>

definition known_key :: "string \<Rightarrow> bool" where
  "known_key key =
     (foldName key \<in> {''SERVER'', ''ADMIN-USERNAME'', ''ADMIN-PASSWORD'', ''ADMIN-TOKEN''})"

text \<open>
  A sample file system: a configuration file with one known and one unknown member, one
  whose only member differs from a field name in case, a file that cannot be opened,
  and nothing else.
\<close>

definition sample_files :: "string \<Rightarrow> os_error + body" where
  "sample_files name =
     (if name = ''galenectl.json''
      then Inr (Document (JObject [(''server'', JString ''https://example.org''),
                                   (''bogus'', JNumber 1)]))
      else if name = ''upper.json''
      then Inr (Document (JObject [(''Server'', JString ''https://example.org'')]))
      else if name = ''secret.json'' then Inl ErrPermission
      else Inl ErrNotExist)"

section \<open>galenectl: password records\<close>

text \<open>
  The record \<open>group.Password\<close>, with the fields \<open>makePassword\<close> fills.  \<open>Key\<close> is a
  pointer to a string in the source, hence an option.
\<close>

record Password =
  Type :: string
  Hash :: string
  Key :: "string option"
  Salt :: string
  Iterations :: int

definition zero_Password :: Password where
  "zero_Password = \<lparr>Type = [], Hash = [], Key = None, Salt = [], Iterations = 0\<rparr>"

text \<open>
  What \<open>makePassword\<close> reaches outside itself.  \<open>allocate\<close> is the runtime
  allocating a byte slice of a given length: it returns, or the program stops.
  \<open>rand_Read\<close> is the result of \<open>rand.Read\<close> on a slice of a given length and
  \<open>random\<close> the bytes it delivers.  \<open>pbkdf2_Key\<close> and \<open>bcrypt_GenerateFromPassword\<close>
  are the two key derivations.  Each library call either returns or stops the program.
\<close>

datatype hash_constructor = sha256_New | sha1_New | sha512_New

record runtime =
  allocate :: "nat \<Rightarrow> unit outcome"
  rand_Read :: "nat \<Rightarrow> error option outcome"
  random :: "nat \<Rightarrow> char"
  pbkdf2_Key :: "string \<Rightarrow> string \<Rightarrow> int \<Rightarrow> int \<Rightarrow> hash_constructor \<Rightarrow> string outcome"
  bcrypt_GenerateFromPassword :: "string \<Rightarrow> int \<Rightarrow> (error + string) outcome"

text \<open>Sequencing: what follows a call runs only if the call returns.\<close>

fun and_then :: "'a outcome \<Rightarrow> ('a \<Rightarrow> 'b outcome) \<Rightarrow> 'b outcome" where
  "and_then (Returns x) f = f x"
| "and_then (Panic s) f = Panic s"
| "and_then (Fatal s) f = Fatal s"
| "and_then (Exit n) f = Exit n"

text \<open>
  \<open>make([]byte, n)\<close>: a negative length panics; otherwise the runtime allocates.
\<close>

definition make_bytes :: "runtime \<Rightarrow> int \<Rightarrow> unit outcome" where
  "make_bytes rt n =
     (if n < 0 then Panic ''makeslice: len out of range'' else allocate rt (nat n))"

text \<open>
  \<open>hex.EncodeToString\<close>: it makes a slice of twice the length of its argument and
  writes two lower-case hexadecimal digits for every byte.
\<close>

definition hextable :: string where
  "hextable = ''0123456789abcdef''"

definition hex_Encode :: "string \<Rightarrow> string" where
  "hex_Encode src =
     concat (map (\<lambda>b. [hextable ! (of_char b div 16), hextable ! (of_char b mod 16)]) src)"

definition hex_EncodeToString :: "runtime \<Rightarrow> string \<Rightarrow> string outcome" where
  "hex_EncodeToString rt src =
     and_then (make_bytes rt (2 * int (length src))) (\<lambda>u. Returns (hex_Encode src))"

text \<open>
  \<open>pbkdf2.Key\<close>: the library ends with the slice \<open>dk[:keyLen]\<close>, which panics
  on a negative key length; otherwise the derivation is the runtime's.
\<close>

definition pbkdf2 ::
  "runtime \<Rightarrow> string \<Rightarrow> string \<Rightarrow> int \<Rightarrow> int \<Rightarrow> hash_constructor \<Rightarrow> string outcome" where
  "pbkdf2 rt pw salt iter keyLen h =
     (if keyLen < 0 then Panic ''slice bounds out of range''
      else pbkdf2_Key rt pw salt iter keyLen h)"

text \<open>
  \<open>makePassword\<close>.  The salt is made first, whatever the algorithm: \<open>make\<close> panics
  on a negative length, and an error of \<open>rand.Read\<close> is returned before the algorithm
  is looked at.
\<close>

definition makePassword ::
  "runtime \<Rightarrow> string \<Rightarrow> string \<Rightarrow> int \<Rightarrow> int \<Rightarrow> int \<Rightarrow> int \<Rightarrow>
   (Password \<times> error option) outcome" where
  "makePassword rt pw algorithm iterations length_k saltlen cost =
     and_then (make_bytes rt saltlen) (\<lambda>u.
       let salt = map (random rt) [0 ..< nat saltlen] in
       and_then (rand_Read rt (nat saltlen)) (\<lambda>err.
         case err of
           Some e \<Rightarrow> Returns (zero_Password, Some e)
         | None \<Rightarrow>
             if algorithm = ''pbkdf2'' then
               and_then (pbkdf2 rt pw salt iterations length_k sha256_New) (\<lambda>key.
               and_then (hex_EncodeToString rt key) (\<lambda>encoded.
               and_then (hex_EncodeToString rt salt) (\<lambda>salt_hex.
                 Returns (\<lparr>Type = ''pbkdf2'', Hash = ''sha-256'', Key = Some encoded,
                           Salt = salt_hex, Iterations = iterations\<rparr>, None))))
             else if algorithm = ''bcrypt'' then
               and_then (bcrypt_GenerateFromPassword rt pw cost) (\<lambda>r.
                 case r of
                   Inl e \<Rightarrow> Returns (zero_Password, Some e)
                 | Inr k \<Rightarrow>
                     Returns (\<lparr>Type = ''bcrypt'', Hash = [], Key = Some k,
                               Salt = [], Iterations = 0\<rparr>, None))
             else if algorithm = ''wildcard'' then
               (if pw \<noteq> [] then Fatal ''Wildcard password must be the empty string''
                else Returns (\<lparr>Type = ''wildcard'', Hash = [], Key = None,
                               Salt = [], Iterations = 0\<rparr>, None))
             else Returns (zero_Password, Some (ErrorString ''unknown password type''))))"

text \<open>
  The options of the \<open>hash-password\<close> command.  \<open>flag.Parse\<close> starts from the defaults
  given at registration and stores each option it meets, in order.
\<close>

record hash_flags =
  password :: string
  algorithm :: string
  iterations :: int
  cost :: int
  length_k :: int
  saltlen :: int

datatype flag_arg =
    password_arg string
  | type_arg string
  | iterations_arg int
  | cost_arg int
  | key_arg int
  | salt_arg int

definition hash_flag_defaults :: hash_flags where
  "hash_flag_defaults =
     \<lparr>password = [], algorithm = ''bcrypt'', iterations = 4096, cost = 8,
      length_k = 32, saltlen = 8\<rparr>"

fun store_flag :: "flag_arg \<Rightarrow> hash_flags \<Rightarrow> hash_flags" where
  "store_flag (password_arg s) f = f\<lparr>password := s\<rparr>"
| "store_flag (type_arg s) f = f\<lparr>algorithm := s\<rparr>"
| "store_flag (iterations_arg n) f = f\<lparr>iterations := n\<rparr>"
| "store_flag (cost_arg n) f = f\<lparr>cost := n\<rparr>"
| "store_flag (key_arg n) f = f\<lparr>length_k := n\<rparr>"
| "store_flag (salt_arg n) f = f\<lparr>saltlen := n\<rparr>"

definition flag_Parse :: "flag_arg list \<Rightarrow> hash_flags" where
  "flag_Parse args = fold store_flag args hash_flag_defaults"

text \<open>
  \<open>hashPasswordCmd\<close>: \<open>args\<close> are the options given, \<open>rest\<close> the arguments left after
  them, \<open>term_ReadPassword\<close> what the terminal answers, \<open>Encode\<close> the error of writing
  the record to standard output.  The command returns the record it printed.
\<close>

definition hashPasswordCmd ::
  "runtime \<Rightarrow> (error + string) \<Rightarrow> (Password \<Rightarrow> error option) \<Rightarrow>
   flag_arg list \<Rightarrow> string list \<Rightarrow> Password outcome" where
  "hashPasswordCmd rt term_ReadPassword Encode args rest =
     (let f = flag_Parse args in
      if rest \<noteq> [] then Exit 1
      else
        case (if algorithm f \<noteq> ''wildcard'' \<and> password f = []
              then term_ReadPassword else Inr (password f)) of
          Inl err \<Rightarrow> Fatal ''ReadPassword''
        | Inr pw \<Rightarrow>
            and_then (makePassword rt pw (algorithm f) (iterations f) (length_k f)
                        (saltlen f) (cost f)) (\<lambda>r.
              case r of
                (p, Some err) \<Rightarrow> Fatal ''Make password''
              | (p, None) \<Rightarrow>
                  (case Encode p of
                     Some err \<Rightarrow> Fatal ''Encode''
                   | None \<Rightarrow> Returns p)))"

text \<open>
  A sample runtime for \<open>makePassword\<close>: slices below 2^31 bytes can be allocated, the
  generator never fails, the key derivation returns the requested number of bytes, and
  bcrypt refuses a cost above 31.
\<close>

definition sample_pbkdf2_Key ::
  "string \<Rightarrow> string \<Rightarrow> int \<Rightarrow> int \<Rightarrow> hash_constructor \<Rightarrow> string outcome" where
  "sample_pbkdf2_Key pw salt iter keyLen h = Returns (replicate (nat keyLen) (CHR ''k''))"

definition sample_bcrypt :: "string \<Rightarrow> int \<Rightarrow> (error + string) outcome" where
  "sample_bcrypt pw c = (if 31 < c then Returns (Inl BcryptError) else Returns (Inr (''$2a$'' @ pw)))"

definition sample_allocate :: "nat \<Rightarrow> unit outcome" where
  "sample_allocate n = (if n < 2147483648 then Returns () else Fatal ''out of memory'')"

definition sample_rand_Read :: "nat \<Rightarrow> error option outcome" where
  "sample_rand_Read n = Returns None"

definition sample_random :: "nat \<Rightarrow> char" where
  "sample_random i = (if i = 0 then CHR ''s'' else CHR ''t'')"

definition sample_runtime :: runtime where
  "sample_runtime =
     \<lparr>allocate = sample_allocate, rand_Read = sample_rand_Read, random = sample_random,
      pbkdf2_Key = sample_pbkdf2_Key, bcrypt_GenerateFromPassword = sample_bcrypt\<rparr>"

definition sample_Encode :: "Password \<Rightarrow> error option" where
  "sample_Encode p = None"

section \<open>rtpconn: the WHIP client\<close>

text \<open>
  A peer connection of the WebRTC engine, as far as the client drives it: whether it has
  been closed, and whether a callback for ICE connection state changes is installed.
  Peer connections live in a heap and are named by their index in it, so that two
  connection objects can be told apart and a closed one stays observable.
\<close>

record PeerConnection =
  closed :: bool
  onICEConnectionStateChange :: bool

record rtpUpConnection =
  conn_id :: string
  pc :: nat

record WhipClient =
  group :: "string option"
  addr :: string
  client_id :: string
  token :: string
  username :: string
  permissions :: "string list"
  connection :: "rtpUpConnection option"
  etag :: string

text \<open>
  What a client can reach outside itself: the heap of peer connections, the members of
  every group, and the callbacks the other clients have received so far.
\<close>

datatype callback =
    PushConn string string "rtpUpConnection option" "string list" string
  | PushClient string string string

record world =
  pcs :: "PeerConnection list"
  clients :: "string \<Rightarrow> string list"
  delivered :: "(string \<times> callback) list"

definition OnICEConnectionStateChange :: "nat \<Rightarrow> bool \<Rightarrow> world \<Rightarrow> world" where
  "OnICEConnectionStateChange h f w =
     (if h < length (pcs w)
      then w\<lparr>pcs := (pcs w)[h := (pcs w ! h)\<lparr>onICEConnectionStateChange := f\<rparr>]\<rparr>
      else w)"

definition pc_Close :: "nat \<Rightarrow> world \<Rightarrow> world" where
  "pc_Close h w =
     (if h < length (pcs w)
      then w\<lparr>pcs := (pcs w)[h := (pcs w ! h)\<lparr>closed := True\<rparr>]\<rparr>
      else w)"

text \<open>
  \<open>WhipClient.Close\<close>.  The mutex is held for the whole call and is not modelled.
  \<open>GetClients\<close> and \<open>DelClient\<close> belong to the package \<open>group\<close> and are parameters:
  the first gives the ids of the group's clients other than \<open>c\<close>, the second is run on
  the world for its effect.  Every client it lists receives
  \<open>PushConn(g, id, nil, nil, "")\<close>.  The statement \<open>c.connection = nil\<close> occurs twice in
  the source; the second changes nothing.
\<close>

definition Close ::
  "(string \<Rightarrow> WhipClient \<Rightarrow> world \<Rightarrow> string list) \<Rightarrow> (WhipClient \<Rightarrow> world \<Rightarrow> world) \<Rightarrow>
   WhipClient \<Rightarrow> world \<Rightarrow> error option \<times> WhipClient \<times> world" where
  "Close GetClients DelClient c w =
     (case group c of
        None \<Rightarrow> (None, c, w)
      | Some g \<Rightarrow>
          let (c1, w1) =
                (case connection c of
                   None \<Rightarrow> (c, w)
                 | Some conn \<Rightarrow>
                     let i = conn_id conn;
                         wa = OnICEConnectionStateChange (pc conn) False w;
                         wb = pc_Close (pc conn) wa;
                         ca = c\<lparr>connection := None\<rparr>;
                         wc = wb\<lparr>delivered := delivered wb @
                                 map (\<lambda>p. (p, PushConn g i None [] []))
                                     (GetClients g ca wb)\<rparr>
                     in (ca\<lparr>connection := None\<rparr>, wc));
              w2 = DelClient c1 w1
          in (None, c1\<lparr>group := None\<rparr>, w2))"

text \<open>Calling \<open>Close\<close> a number of times in a row; the result is that of the last call.\<close>

fun Close_times ::
  "(string \<Rightarrow> WhipClient \<Rightarrow> world \<Rightarrow> string list) \<Rightarrow> (WhipClient \<Rightarrow> world \<Rightarrow> world) \<Rightarrow>
   nat \<Rightarrow> WhipClient \<Rightarrow> world \<Rightarrow> error option \<times> WhipClient \<times> world" where
  "Close_times GetClients DelClient 0 c w = (None, c, w)"
| "Close_times GetClients DelClient (Suc n) c w =
     (case Close GetClients DelClient c w of
        (r, c', w') \<Rightarrow>
          if n = 0 then (r, c', w') else Close_times GetClients DelClient n c' w')"

text \<open>
  What the engine answers while an offer is processed.  \<open>ctx_Done\<close> says that the
  context is cancelled before ICE gathering completes.
\<close>

record engine =
  SetRemoteDescription :: "error option"
  CreateAnswer :: "error option"
  SetLocalDescription :: "error option"
  ctx_Done :: bool
  CurrentLocalDescription :: string

text \<open>
  \<open>WhipClient.gotOffer\<close>, called with the mutex held.  It reads \<open>c.connection\<close> and
  uses it without a nil check.
\<close>

definition gotOffer :: "engine \<Rightarrow> WhipClient \<Rightarrow> string \<Rightarrow> (error + string) outcome" where
  "gotOffer eng c offer =
     (case connection c of
        None \<Rightarrow> Panic ''nil pointer dereference''
      | Some conn \<Rightarrow>
          (case SetRemoteDescription eng of
             Some err \<Rightarrow> Returns (Inl err)
           | None \<Rightarrow>
               (case CreateAnswer eng of
                  Some err \<Rightarrow> Returns (Inl err)
                | None \<Rightarrow>
                    (case SetLocalDescription eng of
                       Some err \<Rightarrow> Returns (Inl err)
                     | None \<Rightarrow>
                         if ctx_Done eng then Returns (Inl ContextCanceled)
                         else Returns (Inr (CurrentLocalDescription eng))))))"

text \<open>
  \<open>WhipClient.NewConnection\<close>.  \<open>newUpConn\<close> is in another file of the package and is
  a parameter: given the client, the id, the label and the offer, it returns an error
  or a connection object, and the world as it left it.  The callback installed on the
  new peer connection calls \<open>c.Close()\<close> when the ICE state becomes failed or closed;
  the model records that it is installed.
\<close>

definition NewConnection ::
  "(WhipClient \<Rightarrow> string \<Rightarrow> string \<Rightarrow> string \<Rightarrow> world \<Rightarrow> (error + rtpUpConnection) \<times> world) \<Rightarrow>
   engine \<Rightarrow> WhipClient \<Rightarrow> world \<Rightarrow> string \<Rightarrow>
   (error + string) outcome \<times> WhipClient \<times> world" where
  "NewConnection newUpConn eng c w offer =
     (case newUpConn c (client_id c) [] offer w of
        (Inl err, w1) \<Rightarrow> (Returns (Inl err), c, w1)
      | (Inr conn, w1) \<Rightarrow>
          let w2 = OnICEConnectionStateChange (pc conn) True w1 in
          if connection c \<noteq> None then
            let w3 = OnICEConnectionStateChange (pc conn) False w2;
                w4 = pc_Close (pc conn) w3
            in (Returns (Inl (ErrorString ''duplicate connection'')), c, w4)
          else
            let c1 = c\<lparr>connection := Some conn\<rparr> in
            (case gotOffer eng c1 offer of
               Returns (Inl err) \<Rightarrow>
                 (let w3 = OnICEConnectionStateChange (pc conn) False w2;
                      w4 = pc_Close (pc conn) w3
                  in (Returns (Inl err), c1, w4))
             | Returns (Inr answer) \<Rightarrow> (Returns (Inr answer), c1, w2)
             | Panic s \<Rightarrow> (Panic s, c1, w2)
             | Fatal s \<Rightarrow> (Fatal s, c1, w2)
             | Exit n \<Rightarrow> (Exit n, c1, w2)))"

subsection \<open>The collaborators of the WHIP client\<close>

text \<open>
  Modelled from the spec: \<open>newUpConn\<close> is not under src/.  An Up connection holds an
  id and a peer-connection handle; creating one either fails, leaving the world as it
  is, or makes a fresh peer connection, open and without callback.
\<close>

definition newUpConn_model ::
  "error option \<Rightarrow> WhipClient \<Rightarrow> string \<Rightarrow> string \<Rightarrow> string \<Rightarrow> world \<Rightarrow>
   (error + rtpUpConnection) \<times> world" where
  "newUpConn_model failure c i label offer w =
     (case failure of
        Some err \<Rightarrow> (Inl err, w)
      | None \<Rightarrow>
          (Inr \<lparr>conn_id = i, pc = length (pcs w)\<rparr>,
           w\<lparr>pcs := pcs w @ [\<lparr>closed = False, onICEConnectionStateChange = False\<rparr>]\<rparr>))"

text \<open>
  Modelled from the spec: \<open>Group.GetClients\<close> is not under src/.
  \<open>getClients(except)\<close> is a snapshot of the group's clients excluding \<open>except\<close>.
\<close>

definition Group_GetClients :: "string \<Rightarrow> WhipClient \<Rightarrow> world \<Rightarrow> string list" where
  "Group_GetClients g c w = filter (\<lambda>i. i \<noteq> client_id c) (clients w g)"

text \<open>
  Modelled from the spec: \<open>group.DelClient\<close> is not under src/.
  \<open>delClient(client)\<close> removes the client from the owning group and emits
  \<open>PushClient\<close> with "leave" to the peers.
\<close>

definition group_DelClient :: "WhipClient \<Rightarrow> world \<Rightarrow> world" where
  "group_DelClient c w =
     (case group c of
        None \<Rightarrow> w
      | Some g \<Rightarrow>
          if client_id c \<in> set (clients w g)
          then
            let rest = removeAll (client_id c) (clients w g) in
            w\<lparr>clients := (clients w)(g := rest),
              delivered := delivered w @
                map (\<lambda>p. (p, PushClient g ''leave'' (client_id c))) rest\<rparr>
          else w)"

text \<open>
  A sample WHIP client in the group \<open>room\<close> with two other members, before and after
  a successful \<open>NewConnection\<close>, and two engines: one that answers every call, one
  whose context is cancelled during ICE gathering.
\<close>

definition sample_client :: WhipClient where
  "sample_client =
     \<lparr>group = Some ''room'', addr = ''192.0.2.1:5000'', client_id = ''whip1'',
      token = ''tok'', username = ''alice'', permissions = [''present''],
      connection = None, etag = []\<rparr>"

definition room_members :: "string \<Rightarrow> string list" where
  "room_members g = (if g = ''room'' then [''whip1'', ''bob'', ''carol''] else [])"

definition sample_world :: world where
  "sample_world = \<lparr>pcs = [], clients = room_members, delivered = []\<rparr>"

definition sample_engine :: engine where
  "sample_engine =
     \<lparr>SetRemoteDescription = None, CreateAnswer = None, SetLocalDescription = None,
      ctx_Done = False, CurrentLocalDescription = ''v=0''\<rparr>"

definition cancelled_engine :: engine where
  "cancelled_engine = sample_engine\<lparr>ctx_Done := True\<rparr>"

definition connected_client :: WhipClient where
  "connected_client = sample_client\<lparr>connection := Some \<lparr>conn_id = ''whip1'', pc = 0\<rparr>\<rparr>"

definition connected_world :: world where
  "connected_world =
     sample_world\<lparr>pcs := [\<lparr>closed = False, onICEConnectionStateChange = True\<rparr>]\<rparr>"

section \<open>token: stateful tokens\<close>

text \<open>
  The struct \<open>Stateful\<close>, with the fields the tests of the package build and compare.
  A time is a number of nanoseconds; a nil pointer is \<open>None\<close>.
\<close>

record Stateful =
  Token :: string
  Group :: string
  IncludeSubgroups :: bool
  Username :: "string option"
  Permissions :: "string list"
  Expires :: "int option"
  NotBefore :: "int option"
  IssuedBy :: "string option"
  IssuedAt :: "int option"

definition Hour :: int where
  "Hour = 3600 * 1000000000"

section \<open>token: the store\<close>

text \<open>
  The store (\<open>state\<close>, \<open>load\<close>, \<open>rewrite\<close>, \<open>Update\<close>, \<open>Expire\<close>) is not under
  src/; only its tests \<open>TestTokenStorage\<close> and \<open>TestExpire\<close> are.  The definitions of
  this section are modelled from the spec.
\<close>

text \<open>
  Modelled from the spec: the file system under the store, which the absent code
  reaches through the operating system.  A file has a modification time and holds
  records, one per line; \<open>clock\<close> gives the next modification time; \<open>writable\<close> says
  whether writing and removing succeed.
\<close>

record filesystem =
  files :: "string \<rightharpoonup> (nat \<times> Stateful list)"
  clock :: nat
  writable :: bool

text \<open>
  Modelled from the spec: the struct \<open>state\<close>, which is not under src/; the test
  sets \<open>filename\<close> and \<open>modTime\<close> and reads \<open>tokens\<close>.  The map from token value to
  record is an association list; the zero time is \<open>None\<close>.
\<close>

record state =
  filename :: string
  tokens :: "(string \<times> Stateful) list"
  modTime :: "nat option"

text \<open>\<open>os.Stat\<close> on the modelled file system, as far as the test uses it.\<close>

definition os_Stat :: "filesystem \<Rightarrow> string \<Rightarrow> os_error + nat" where
  "os_Stat fs name = (case files fs name of None \<Rightarrow> Inl ErrNotExist | Some (m, recs) \<Rightarrow> Inr m)"

text \<open>
  Modelled from the spec: reading the entire file into a new map, part of \<open>load\<close>,
  which is not under src/.  A later line replaces an earlier one of the same token.
\<close>

definition read_records :: "Stateful list \<Rightarrow> (string \<times> Stateful) list" where
  "read_records recs = fold (\<lambda>t m. AList.update (Token t) t m) recs []"

text \<open>
  Modelled from the spec: \<open>load\<close>, which is not under src/.  It stats the file; if
  the modification time is that of the memo it uses the map in memory, else it reads
  the entire file into a new map.  Without file the map is empty.
\<close>

definition load :: "state \<Rightarrow> filesystem \<Rightarrow> state" where
  "load st fs =
     (case files fs (filename st) of
        None \<Rightarrow> st\<lparr>tokens := [], modTime := None\<rparr>
      | Some (m, recs) \<Rightarrow>
          if modTime st = Some m then st
          else st\<lparr>tokens := read_records recs, modTime := Some m\<rparr>)"

text \<open>
  Modelled from the spec: \<open>rewrite\<close>, which is not under src/.  It writes the records,
  sorted by token value, and updates the memo; if the map is empty the file is removed
  rather than rewritten.  A failure surfaces as \<open>Internal\<close>, with memory and file
  untouched.
\<close>

definition rewrite :: "state \<Rightarrow> filesystem \<Rightarrow> error option \<times> state \<times> filesystem" where
  "rewrite st fs =
     (if \<not> writable fs then (Some Internal, st, fs)
      else if tokens st = [] then
        (None, st\<lparr>modTime := None\<rparr>, fs\<lparr>files := (files fs)(filename st := None)\<rparr>)
      else
        let m = Suc (clock fs) in
        (None, st\<lparr>modTime := Some m\<rparr>,
         fs\<lparr>files := (files fs)(filename st \<mapsto> (m, map snd (sort_key fst (tokens st)))),
            clock := m\<rparr>))"

text \<open>
  Modelled from the spec: the end of \<open>Update\<close>, which is not under src/.  The record
  is stored under its token value and the file rewritten; when that fails, neither
  memory nor file is changed.
\<close>

definition commit ::
  "Stateful \<Rightarrow> state \<Rightarrow> filesystem \<Rightarrow> (error + Stateful) \<times> state \<times> filesystem" where
  "commit t st fs =
     (case rewrite (st\<lparr>tokens := AList.update (Token t) t (tokens st)\<rparr>) fs of
        (Some err, st', fs') \<Rightarrow> (Inl err, st, fs)
      | (None, st', fs') \<Rightarrow> (Inr t, st', fs'))"

text \<open>
  Modelled from the spec: \<open>Update\<close>, which is not under src/.  It reloads, verifies
  the ETag precondition and writes.  The ETag is a strong hash of the current record,
  the parameter \<open>hash\<close>; the empty ETag means "create, must not exist".  A non-empty
  ETag for a token that is not in the store is \<open>ErrNotFound\<close>.
\<close>

definition Update ::
  "(Stateful \<Rightarrow> string) \<Rightarrow> Stateful \<Rightarrow> string \<Rightarrow> state \<Rightarrow> filesystem \<Rightarrow>
   (error + Stateful) \<times> state \<times> filesystem" where
  "Update hash t ifMatch st fs =
     (let st1 = load st fs in
      case map_of (tokens st1) (Token t) of
        None \<Rightarrow>
          if ifMatch \<noteq> [] then (Inl ErrNotFound, st1, fs) else commit t st1 fs
      | Some old \<Rightarrow>
          if ifMatch = [] \<or> ifMatch \<noteq> hash old then (Inl ErrTagMismatch, st1, fs)
          else commit t st1 fs)"

text \<open>
  Modelled from the spec: the condition of \<open>Expire\<close>, which is not under src/: the
  token's \<open>expires\<close> is more than 7 days in the past.
\<close>

definition expired :: "int \<Rightarrow> Stateful \<Rightarrow> bool" where
  "expired now t = (case Expires t of None \<Rightarrow> False | Some e \<Rightarrow> e < now - 7 * 24 * Hour)"

text \<open>
  Modelled from the spec: \<open>Expire\<close>, which is not under src/.  It reloads, removes
  the tokens that expired more than 7 days ago, and rewrites the file if any was
  removed.
\<close>

definition Expire :: "int \<Rightarrow> state \<Rightarrow> filesystem \<Rightarrow> error option \<times> state \<times> filesystem" where
  "Expire now st fs =
     (let st1 = load st fs;
          keep = filter (\<lambda>(k, t). \<not> expired now t) (tokens st1)
      in if length keep = length (tokens st1) then (None, st1, fs)
         else
           (case rewrite (st1\<lparr>tokens := keep\<rparr>) fs of
              (Some err, st', fs') \<Rightarrow> (Some err, st1, fs)
            | (None, st', fs') \<Rightarrow> (None, st', fs')))"

text \<open>
  \<open>readTokenFile\<close> of the tests: the records of the file, in the order of the file; it
  panics when the file cannot be opened.
\<close>

definition readTokenFile :: "filesystem \<Rightarrow> string \<Rightarrow> Stateful list outcome" where
  "readTokenFile fs name =
     (case files fs name of None \<Rightarrow> Panic ''open'' | Some (m, recs) \<Rightarrow> Returns recs)"

text \<open>A sequence of store operations, each at its own time, run one after the other.\<close>

datatype store_op = OpUpdate Stateful string | OpExpire int

fun apply_op :: "(Stateful \<Rightarrow> string) \<Rightarrow> store_op \<Rightarrow> state \<times> filesystem \<Rightarrow> state \<times> filesystem" where
  "apply_op hash (OpUpdate t ifMatch) (st, fs) = snd (Update hash t ifMatch st fs)"
| "apply_op hash (OpExpire now) (st, fs) = snd (Expire now st fs)"

definition run :: "(Stateful \<Rightarrow> string) \<Rightarrow> store_op list \<Rightarrow> state \<times> filesystem \<Rightarrow> state \<times> filesystem" where
  "run hash ops s = fold (apply_op hash) ops s"

text \<open>
  Re-reading the file, as the tests do by clearing the memo and calling \<open>load\<close>, and
  comparing with the map in memory: the same keys with equal records.
\<close>

definition reload :: "state \<Rightarrow> filesystem \<Rightarrow> state" where
  "reload st fs = load (st\<lparr>modTime := None\<rparr>) fs"

definition in_sync :: "state \<Rightarrow> filesystem \<Rightarrow> bool" where
  "in_sync st fs = (map_of (tokens (reload st fs)) = map_of (tokens st))"

text \<open>The five tokens of \<open>TestExpire\<close> and the empty store it starts from.\<close>

definition expire_token :: "string \<Rightarrow> int \<Rightarrow> Stateful" where
  "expire_token name e =
     \<lparr>Token = name, Group = ''test'', IncludeSubgroups = False,
      Username = Some ''user'', Permissions = [''present'', ''message''],
      Expires = Some e, NotBefore = None, IssuedBy = None, IssuedAt = None\<rparr>"

definition expire_tokens :: "int \<Rightarrow> Stateful list" where
  "expire_tokens now =
     [expire_token ''tok1'' now,
      expire_token ''tok2'' (now + Hour),
      expire_token ''tok3'' now,
      expire_token ''tok4'' (now - Hour * 24 * 6),
      expire_token ''tok5'' (now - Hour * 24 * 8)]"

definition new_store :: "string \<Rightarrow> state" where
  "new_store name = \<lparr>filename = name, tokens = [], modTime = None\<rparr>"

definition empty_fs :: filesystem where
  "empty_fs = \<lparr>files = Map.empty, clock = 0, writable = True\<rparr>"

text \<open>
  The invariant of the store.  The keys are distinct and each is the token value of its
  record; without file the map is empty; with a file the memo is the file's
  modification time and the file read as a map is the map in memory.
\<close>

definition keyed :: "(string \<times> Stateful) list \<Rightarrow> bool" where
  "keyed xs = (distinct (map fst xs) \<and> list_all (\<lambda>(k, t). Token t = k) xs)"

definition store_ok :: "state \<Rightarrow> filesystem \<Rightarrow> bool" where
  "store_ok st fs =
     (keyed (tokens st) \<and>
      (case files fs (filename st) of
         None \<Rightarrow> tokens st = []
       | Some (m, recs) \<Rightarrow>
           modTime st = Some m \<and> map_of (read_records recs) = map_of (tokens st)))"

text \<open>A sample ETag: any function of the record will do for the store.\<close>

definition sample_hash :: "Stateful \<Rightarrow> string" where
  "sample_hash t = ''etag-'' @ Token t @ concat (Permissions t)"

text \<open>The store of \<open>TestExpire\<close> after its five tokens have been added.\<close>

definition expire_store :: "int \<Rightarrow> state \<times> filesystem" where
  "expire_store now =
     run sample_hash (map (\<lambda>t. OpUpdate t []) (expire_tokens now))
       (new_store ''test.jsonl'', empty_fs)"

text \<open>
  The three tokens of \<open>TestTokenStorage\<close>, the store after they have been added, and
  the edited copy of the second token, whose expiry is extended.
\<close>

definition storage_token ::
  "string \<Rightarrow> string \<Rightarrow> string list \<Rightarrow> int \<Rightarrow> int option \<Rightarrow> Stateful" where
  "storage_token name user perms e nb =
     \<lparr>Token = name, Group = ''test'', IncludeSubgroups = False,
      Username = Some user, Permissions = perms,
      Expires = Some e, NotBefore = nb, IssuedBy = None, IssuedAt = None\<rparr>"

definition storage_tokens :: "int \<Rightarrow> Stateful list" where
  "storage_tokens now =
     [storage_token ''tok1'' ''user1'' [''present'', ''message''] (now + Hour) None,
      storage_token ''tok2'' ''user2'' [''present'', ''record'', ''message'']
        (now + Hour div 2) (Some (now - Hour)),
      storage_token ''tok3'' ''user3'' [''present'', ''message''] (now + Hour div 2) None]"

definition storage_store :: "int \<Rightarrow> state \<times> filesystem" where
  "storage_store now =
     run sample_hash (map (\<lambda>t. OpUpdate t []) (storage_tokens now))
       (new_store ''test.jsonl'', empty_fs)"

definition edited_token :: "int \<Rightarrow> Stateful" where
  "edited_token now =
     storage_token ''tok2'' ''user2'' [''present'', ''record'', ''message'']
       (now + Hour) (Some (now - Hour))"

text \<open>
  The tail of \<open>TestTokenStorage\<close>: every key is deleted from the map of the store, and
  the store is rewritten.
\<close>

definition emptied_store :: "int \<Rightarrow> state" where
  "emptied_store now = (fst (storage_store now))\<lparr>tokens := []\<rparr>"

section \<open>Properties\<close>

subsection \<open>readConfig\<close>

lemma set_field_None: "set_field key s config = None \<longleftrightarrow> \<not> known_key key"
  by (simp add: set_field_def known_key_def)

lemma decode_members_saved:
  "snd (decode_members kvs (config, Some e)) = Some e"
  by (induction kvs arbitrary: config)
     (auto simp: saveError_def split: option.splits json.splits)

lemma decode_members_unknown:
  "\<exists>kv \<in> set kvs. \<not> known_key (fst kv) \<Longrightarrow> snd (decode_members kvs (config, saved)) \<noteq> None"
proof (induction kvs arbitrary: config saved)
  case Nil
  then show ?case by simp
next
  case (Cons kv kvs)
  obtain key v where kv: "kv = (key, v)" by (cases kv)
  show ?case
  proof (cases "known_key key")
    case False
    then have "set_field key [] config = None" by (simp add: set_field_None)
    then show ?thesis
      using decode_members_saved [of kvs config]
      by (cases saved) (simp_all add: kv saveError_def)
  next
    case True
    then obtain c' where "set_field key [] config = Some c'"
      using set_field_None [of key "[]" config] by (cases "set_field key [] config") auto
    moreover have "\<exists>kv \<in> set kvs. \<not> known_key (fst kv)"
      using Cons.prems True kv by auto
    ultimately show ?thesis
      using Cons.IH by (simp add: kv split: json.splits)
  qed
qed

lemma decode_members_config:
  "fst (decode_members kvs (config, saved)) =
   fst (decode_members (filter (\<lambda>kv. known_key (fst kv)) kvs) (config, saved'))"
proof (induction kvs arbitrary: config saved saved')
  case Nil
  then show ?case by simp
next
  case (Cons kv kvs)
  obtain key v where kv: "kv = (key, v)" by (cases kv)
  show ?case
  proof (cases "known_key key")
    case False
    then have "set_field key [] config = None" by (simp add: set_field_None)
    then show ?thesis using Cons.IH False by (simp add: kv)
  next
    case True
    then obtain c' where "set_field key [] config = Some c'"
      using set_field_None [of key "[]" config] by (cases "set_field key [] config") auto
    then show ?thesis
      using Cons.IH True by (simp add: kv split: json.splits)
  qed
qed


text \<open>
  C10, as the code has it.  \<open>readConfig\<close> returns the zero configuration and no
  error when the file does not exist, and the zero configuration with the error when
  opening fails otherwise.  When the file opens, it returns what the decoder returns:
  its error, and the configuration as the decoder left it.  A JSON object with a member
  whose key names no field is returned as an error; the configuration returned with it
  is the one obtained by decoding the members that name a field.
\<close>

theorem readConfig_results:
  "(os_Open name = Inl ErrNotExist \<longrightarrow>
      readConfig os_Open Decode name = (zero_configuration, None)) \<and>
   (os_Open name = Inl e \<and> e \<noteq> ErrNotExist \<longrightarrow>
      readConfig os_Open Decode name = (zero_configuration, Some (PathError e))) \<and>
   (os_Open name = Inr f \<longrightarrow>
      readConfig os_Open Decode name = Decode f zero_configuration) \<and>
   (os_Open name = Inr (Document (JObject kvs)) \<and> (\<exists>kv \<in> set kvs. \<not> known_key (fst kv)) \<longrightarrow>
      snd (readConfig os_Open json_Decode name) \<noteq> None \<and>
      fst (readConfig os_Open json_Decode name) =
        fst (json_Decode (Document (JObject (filter (\<lambda>kv. known_key (fst kv)) kvs)))
               zero_configuration))"
proof (intro conjI impI)
  assume "os_Open name = Inl ErrNotExist"
  then show "readConfig os_Open Decode name = (zero_configuration, None)"
    by (simp add: readConfig_def IsNotExist_def)
next
  assume "os_Open name = Inl e \<and> e \<noteq> ErrNotExist"
  then show "readConfig os_Open Decode name = (zero_configuration, Some (PathError e))"
    by (simp add: readConfig_def IsNotExist_def)
next
  assume "os_Open name = Inr f"
  then show "readConfig os_Open Decode name = Decode f zero_configuration"
    by (simp add: readConfig_def split: prod.splits option.splits)
next
  assume a: "os_Open name = Inr (Document (JObject kvs)) \<and> (\<exists>kv \<in> set kvs. \<not> known_key (fst kv))"
  have r: "readConfig os_Open json_Decode name = decode_members kvs (zero_configuration, None)"
    using a by (simp add: readConfig_def json_Decode_def split: prod.splits option.splits)
  show "snd (readConfig os_Open json_Decode name) \<noteq> None"
    using a decode_members_unknown [of kvs zero_configuration None] by (simp add: r)
  show "fst (readConfig os_Open json_Decode name) =
        fst (json_Decode (Document (JObject (filter (\<lambda>kv. known_key (fst kv)) kvs)))
               zero_configuration)"
    using decode_members_config [of kvs zero_configuration None None]
    by (simp add: r json_Decode_def)
qed

text \<open>
  C10 as stated fails: a body with the member \<open>server\<close> and an unknown member
  yields the error for the unknown member together with a configuration whose server
  is set.
\<close>

theorem readConfig_unknown_field_counterexample:
  "readConfig sample_files json_Decode ''galenectl.json'' =
     (zero_configuration\<lparr>Server := ''https://example.org''\<rparr>, Some (UnknownField ''bogus'')) \<and>
   zero_configuration\<lparr>Server := ''https://example.org''\<rparr> \<noteq> zero_configuration"
  by code_simp

theorem readConfig_results_witness:
  "readConfig sample_files json_Decode ''missing.json'' = (zero_configuration, None) \<and>
   readConfig sample_files json_Decode ''secret.json'' =
     (zero_configuration, Some (PathError ErrPermission)) \<and>
   snd (readConfig sample_files json_Decode ''galenectl.json'') \<noteq> None \<and>
   fst (readConfig sample_files json_Decode ''galenectl.json'') =
     zero_configuration\<lparr>Server := ''https://example.org''\<rparr> \<and>
   readConfig sample_files json_Decode ''upper.json'' =
     (zero_configuration\<lparr>Server := ''https://example.org''\<rparr>, None)"
proof -
  let ?kvs = "[(''server'', JString ''https://example.org''), (''bogus'', JNumber 1)]"
  have a: "sample_files ''missing.json'' = Inl ErrNotExist"
    by (simp add: sample_files_def)
  have b: "sample_files ''secret.json'' = Inl ErrPermission \<and> ErrPermission \<noteq> ErrNotExist"
    by (simp add: sample_files_def)
  have c: "sample_files ''galenectl.json'' = Inr (Document (JObject ?kvs))"
    by (simp add: sample_files_def)
  have k: "known_key ''server'' \<and> \<not> known_key ''bogus''"
    by code_simp
  then have u: "\<exists>kv \<in> set ?kvs. \<not> known_key (fst kv)"
    by simp
  have d: "fst (json_Decode (Document (JObject (filter (\<lambda>kv. known_key (fst kv)) ?kvs)))
       zero_configuration) = zero_configuration\<lparr>Server := ''https://example.org''\<rparr>"
    by code_simp
  have upper: "readConfig sample_files json_Decode ''upper.json'' =
     (zero_configuration\<lparr>Server := ''https://example.org''\<rparr>, None)"
    by code_simp
  have m: "readConfig sample_files json_Decode ''missing.json'' = (zero_configuration, None)"
    using readConfig_results [where os_Open = sample_files and name = "''missing.json''"
        and Decode = json_Decode] a
    by blast
  have s: "readConfig sample_files json_Decode ''secret.json'' =
     (zero_configuration, Some (PathError ErrPermission))"
    using readConfig_results [where os_Open = sample_files and name = "''secret.json''"
        and Decode = json_Decode and e = ErrPermission] b
    by blast
  have g: "snd (readConfig sample_files json_Decode ''galenectl.json'') \<noteq> None \<and>
      fst (readConfig sample_files json_Decode ''galenectl.json'') =
        fst (json_Decode (Document (JObject (filter (\<lambda>kv. known_key (fst kv)) ?kvs)))
               zero_configuration)"
    using readConfig_results [where os_Open = sample_files and name = "''galenectl.json''"
        and kvs = ?kvs]
      c u
    by blast
  show ?thesis
    using m s g d upper by metis
qed

subsection \<open>makePassword\<close>

lemma length_hex_Encode: "length (hex_Encode src) = 2 * length src"
  by (induction src) (simp_all add: hex_Encode_def)

lemma flag_fold_cost:
  "\<forall>n. cost_arg n \<notin> set args \<Longrightarrow> cost (fold store_flag args f) = cost f"
proof (induction args arbitrary: f)
  case Nil
  then show ?case by simp
next
  case (Cons a args)
  then show ?case by (cases a) auto
qed

lemma flag_fold_saltlen:
  "\<forall>n. salt_arg n \<notin> set args \<Longrightarrow> saltlen (fold store_flag args f) = saltlen f"
proof (induction args arbitrary: f)
  case Nil
  then show ?case by simp
next
  case (Cons a args)
  then show ?case by (cases a) auto
qed

lemma flag_fold_length:
  "\<forall>n. key_arg n \<notin> set args \<Longrightarrow> length_k (fold store_flag args f) = length_k f"
proof (induction args arbitrary: f)
  case Nil
  then show ?case by simp
next
  case (Cons a args)
  then show ?case by (cases a) auto
qed

lemma flag_fold_iterations:
  "\<forall>n. iterations_arg n \<notin> set args \<Longrightarrow> iterations (fold store_flag args f) = iterations f"
proof (induction args arbitrary: f)
  case Nil
  then show ?case by simp
next
  case (Cons a args)
  then show ?case by (cases a) auto
qed

lemma makePassword_negative_salt:
  "sl < 0 \<Longrightarrow>
   makePassword rt pw alg it kl sl c = Panic ''makeslice: len out of range''"
  by (simp add: makePassword_def make_bytes_def)

lemma makePassword_salt_made:
  "0 \<le> sl \<Longrightarrow> allocate rt (nat sl) = Returns () \<Longrightarrow> rand_Read rt (nat sl) = Returns r \<Longrightarrow>
   makePassword rt pw alg it kl sl c =
     (case r of
        Some e \<Rightarrow> Returns (zero_Password, Some e)
      | None \<Rightarrow>
          if alg = ''pbkdf2'' then
            and_then (pbkdf2 rt pw (map (random rt) [0 ..< nat sl]) it kl sha256_New) (\<lambda>key.
            and_then (hex_EncodeToString rt key) (\<lambda>encoded.
            and_then (hex_EncodeToString rt (map (random rt) [0 ..< nat sl])) (\<lambda>salt_hex.
              Returns (\<lparr>Type = ''pbkdf2'', Hash = ''sha-256'', Key = Some encoded,
                        Salt = salt_hex, Iterations = it\<rparr>, None))))
          else if alg = ''bcrypt'' then
            and_then (bcrypt_GenerateFromPassword rt pw c) (\<lambda>r.
              case r of
                Inl e \<Rightarrow> Returns (zero_Password, Some e)
              | Inr k \<Rightarrow>
                  Returns (\<lparr>Type = ''bcrypt'', Hash = [], Key = Some k,
                            Salt = [], Iterations = 0\<rparr>, None))
          else if alg = ''wildcard'' then
            (if pw \<noteq> [] then Fatal ''Wildcard password must be the empty string''
             else Returns (\<lparr>Type = ''wildcard'', Hash = [], Key = None,
                            Salt = [], Iterations = 0\<rparr>, None))
          else Returns (zero_Password, Some (ErrorString ''unknown password type'')))"
  by (simp add: makePassword_def make_bytes_def Let_def)

lemma hex_EncodeToString_made:
  "allocate rt (2 * length src) = Returns () \<Longrightarrow>
   hex_EncodeToString rt src = Returns (hex_Encode src)"
  by (simp add: hex_EncodeToString_def make_bytes_def nat_mult_distrib)

lemma and_then_no_record:
  "(\<And>x. f x \<noteq> Returns (p, None)) \<Longrightarrow> and_then m f \<noteq> Returns (p, None)"
  by (cases m) simp_all

lemma makePassword_unknown_no_record:
  assumes "alg \<noteq> ''pbkdf2''" "alg \<noteq> ''bcrypt''" "alg \<noteq> ''wildcard''"
  shows "makePassword rt pw alg it kl sl c \<noteq> Returns (p, None)"
  unfolding makePassword_def Let_def
  using assms
  by (intro and_then_no_record) (simp split: option.splits)


text \<open>
  C9, as the code has it.  \<open>makePassword\<close> makes the salt first, whatever the
  algorithm: a negative salt length panics, and an error of \<open>rand.Read\<close> is returned.
  Once the salt is made: with \<open>bcrypt\<close> it returns a bcrypt record whose key is the
  library's hash at the given cost, or the library's error; with \<open>pbkdf2\<close>, a negative
  key length panics, and otherwise, when the key derivation returns a key and the two
  hexadecimal strings can be allocated, it
  returns a PBKDF2 record for SHA-256 with the given iteration count, whose salt has
  the given length and whose key is derived with the given key length; any other
  algorithm but \<open>wildcard\<close> yields the error "unknown password type", and never a
  record.  The options left out on the command line are cost 8, salt length 8, key
  length 32 and 4096 iterations, and \<open>hashPasswordCmd\<close> hands them to
  \<open>makePassword\<close>.
\<close>

theorem makePassword_algorithms:
  "(sl < 0 \<longrightarrow> makePassword rt pw alg it kl sl c = Panic ''makeslice: len out of range'') \<and>
   (0 \<le> sl \<and> allocate rt (nat sl) = Returns () \<and> rand_Read rt (nat sl) = Returns (Some e) \<longrightarrow>
      makePassword rt pw alg it kl sl c = Returns (zero_Password, Some e)) \<and>
   (0 \<le> sl \<and> allocate rt (nat sl) = Returns () \<and> rand_Read rt (nat sl) = Returns None \<and>
    bcrypt_GenerateFromPassword rt pw c = Returns (Inr k) \<longrightarrow>
      makePassword rt pw ''bcrypt'' it kl sl c =
        Returns (\<lparr>Type = ''bcrypt'', Hash = [], Key = Some k, Salt = [], Iterations = 0\<rparr>, None)) \<and>
   (0 \<le> sl \<and> allocate rt (nat sl) = Returns () \<and> rand_Read rt (nat sl) = Returns None \<and>
    bcrypt_GenerateFromPassword rt pw c = Returns (Inl e) \<longrightarrow>
      makePassword rt pw ''bcrypt'' it kl sl c = Returns (zero_Password, Some e)) \<and>
   (0 \<le> sl \<and> allocate rt (nat sl) = Returns () \<and> rand_Read rt (nat sl) = Returns None \<and>
    kl < 0 \<longrightarrow>
      makePassword rt pw ''pbkdf2'' it kl sl c = Panic ''slice bounds out of range'') \<and>
   (0 \<le> sl \<and> allocate rt (nat sl) = Returns () \<and> rand_Read rt (nat sl) = Returns None \<and>
    0 \<le> kl \<and>
    pbkdf2_Key rt pw (map (random rt) [0 ..< nat sl]) it kl sha256_New = Returns key \<and>
    allocate rt (2 * length key) = Returns () \<and> allocate rt (2 * nat sl) = Returns () \<longrightarrow>
      makePassword rt pw ''pbkdf2'' it kl sl c =
        Returns (\<lparr>Type = ''pbkdf2'', Hash = ''sha-256'', Key = Some (hex_Encode key),
                  Salt = hex_Encode (map (random rt) [0 ..< nat sl]), Iterations = it\<rparr>, None) \<and>
      length (map (random rt) [0 ..< nat sl]) = nat sl \<and>
      length (hex_Encode (map (random rt) [0 ..< nat sl])) = 2 * nat sl) \<and>
   (alg \<noteq> ''pbkdf2'' \<and> alg \<noteq> ''bcrypt'' \<and> alg \<noteq> ''wildcard'' \<longrightarrow>
      (\<forall>p. makePassword rt pw alg it kl sl c \<noteq> Returns (p, None)) \<and>
      (0 \<le> sl \<and> allocate rt (nat sl) = Returns () \<and> rand_Read rt (nat sl) = Returns None \<longrightarrow>
         makePassword rt pw alg it kl sl c =
           Returns (zero_Password, Some (ErrorString ''unknown password type'')))) \<and>
   ((\<forall>n. cost_arg n \<notin> set args) \<longrightarrow> cost (flag_Parse args) = 8) \<and>
   ((\<forall>n. salt_arg n \<notin> set args) \<longrightarrow> saltlen (flag_Parse args) = 8) \<and>
   ((\<forall>n. key_arg n \<notin> set args) \<longrightarrow> length_k (flag_Parse args) = 32) \<and>
   ((\<forall>n. iterations_arg n \<notin> set args) \<longrightarrow> iterations (flag_Parse args) = 4096) \<and>
   (pw \<noteq> [] \<longrightarrow>
      hashPasswordCmd rt T E [password_arg pw] [] =
        and_then (makePassword rt pw ''bcrypt'' 4096 32 8 8)
          (\<lambda>r. case r of
                  (p, Some err) \<Rightarrow> Fatal ''Make password''
                | (p, None) \<Rightarrow> (case E p of Some err \<Rightarrow> Fatal ''Encode'' | None \<Rightarrow> Returns p))) \<and>
   (pw \<noteq> [] \<longrightarrow>
      hashPasswordCmd rt T E [password_arg pw, type_arg ''pbkdf2''] [] =
        and_then (makePassword rt pw ''pbkdf2'' 4096 32 8 8)
          (\<lambda>r. case r of
                  (p, Some err) \<Rightarrow> Fatal ''Make password''
                | (p, None) \<Rightarrow> (case E p of Some err \<Rightarrow> Fatal ''Encode'' | None \<Rightarrow> Returns p)))"
proof (intro conjI impI allI)
  assume "sl < 0"
  then show "makePassword rt pw alg it kl sl c = Panic ''makeslice: len out of range''"
    by (rule makePassword_negative_salt)
next
  assume "0 \<le> sl \<and> allocate rt (nat sl) = Returns () \<and> rand_Read rt (nat sl) = Returns (Some e)"
  then show "makePassword rt pw alg it kl sl c = Returns (zero_Password, Some e)"
    by (simp add: makePassword_salt_made)
next
  assume "0 \<le> sl \<and> allocate rt (nat sl) = Returns () \<and> rand_Read rt (nat sl) = Returns None \<and>
    bcrypt_GenerateFromPassword rt pw c = Returns (Inr k)"
  then show "makePassword rt pw ''bcrypt'' it kl sl c =
        Returns (\<lparr>Type = ''bcrypt'', Hash = [], Key = Some k, Salt = [], Iterations = 0\<rparr>, None)"
    by (simp add: makePassword_salt_made)
next
  assume "0 \<le> sl \<and> allocate rt (nat sl) = Returns () \<and> rand_Read rt (nat sl) = Returns None \<and>
    bcrypt_GenerateFromPassword rt pw c = Returns (Inl e)"
  then show "makePassword rt pw ''bcrypt'' it kl sl c = Returns (zero_Password, Some e)"
    by (simp add: makePassword_salt_made)
next
  assume "0 \<le> sl \<and> allocate rt (nat sl) = Returns () \<and> rand_Read rt (nat sl) = Returns None \<and>
    kl < 0"
  then show "makePassword rt pw ''pbkdf2'' it kl sl c = Panic ''slice bounds out of range''"
    by (simp add: makePassword_salt_made pbkdf2_def)
next
  assume a: "0 \<le> sl \<and> allocate rt (nat sl) = Returns () \<and> rand_Read rt (nat sl) = Returns None \<and>
    0 \<le> kl \<and>
    pbkdf2_Key rt pw (map (random rt) [0 ..< nat sl]) it kl sha256_New = Returns key \<and>
    allocate rt (2 * length key) = Returns () \<and> allocate rt (2 * nat sl) = Returns ()"
  have h1: "hex_EncodeToString rt key = Returns (hex_Encode key)"
    using a by (simp add: hex_EncodeToString_made)
  have h2: "hex_EncodeToString rt (map (random rt) [0 ..< nat sl]) =
      Returns (hex_Encode (map (random rt) [0 ..< nat sl]))"
    using a by (simp add: hex_EncodeToString_made)
  show "makePassword rt pw ''pbkdf2'' it kl sl c =
        Returns (\<lparr>Type = ''pbkdf2'', Hash = ''sha-256'', Key = Some (hex_Encode key),
                  Salt = hex_Encode (map (random rt) [0 ..< nat sl]), Iterations = it\<rparr>, None)"
    using a h1 h2 by (simp add: makePassword_salt_made pbkdf2_def)
next
  show "length (map (random rt) [0 ..< nat sl]) = nat sl" by simp
next
  show "length (hex_Encode (map (random rt) [0 ..< nat sl])) = 2 * nat sl"
    by (simp add: length_hex_Encode)
next
  fix p
  assume "alg \<noteq> ''pbkdf2'' \<and> alg \<noteq> ''bcrypt'' \<and> alg \<noteq> ''wildcard''"
  then show "makePassword rt pw alg it kl sl c \<noteq> Returns (p, None)"
    by (simp add: makePassword_unknown_no_record)
next
  assume "alg \<noteq> ''pbkdf2'' \<and> alg \<noteq> ''bcrypt'' \<and> alg \<noteq> ''wildcard''"
    "0 \<le> sl \<and> allocate rt (nat sl) = Returns () \<and> rand_Read rt (nat sl) = Returns None"
  then show "makePassword rt pw alg it kl sl c =
           Returns (zero_Password, Some (ErrorString ''unknown password type''))"
    by (simp add: makePassword_salt_made)
next
  assume "\<forall>n. cost_arg n \<notin> set args"
  then show "cost (flag_Parse args) = 8"
    by (simp add: flag_Parse_def flag_fold_cost hash_flag_defaults_def)
next
  assume "\<forall>n. salt_arg n \<notin> set args"
  then show "saltlen (flag_Parse args) = 8"
    by (simp add: flag_Parse_def flag_fold_saltlen hash_flag_defaults_def)
next
  assume "\<forall>n. key_arg n \<notin> set args"
  then show "length_k (flag_Parse args) = 32"
    by (simp add: flag_Parse_def flag_fold_length hash_flag_defaults_def)
next
  assume "\<forall>n. iterations_arg n \<notin> set args"
  then show "iterations (flag_Parse args) = 4096"
    by (simp add: flag_Parse_def flag_fold_iterations hash_flag_defaults_def)
next
  assume "pw \<noteq> []"
  then show "hashPasswordCmd rt T E [password_arg pw] [] =
        and_then (makePassword rt pw ''bcrypt'' 4096 32 8 8)
          (\<lambda>r. case r of
                  (p, Some err) \<Rightarrow> Fatal ''Make password''
                | (p, None) \<Rightarrow> (case E p of Some err \<Rightarrow> Fatal ''Encode'' | None \<Rightarrow> Returns p))"
    by (simp add: hashPasswordCmd_def flag_Parse_def hash_flag_defaults_def)
next
  assume "pw \<noteq> []"
  then show "hashPasswordCmd rt T E [password_arg pw, type_arg ''pbkdf2''] [] =
        and_then (makePassword rt pw ''pbkdf2'' 4096 32 8 8)
          (\<lambda>r. case r of
                  (p, Some err) \<Rightarrow> Fatal ''Make password''
                | (p, None) \<Rightarrow> (case E p of Some err \<Rightarrow> Fatal ''Encode'' | None \<Rightarrow> Returns p))"
    by (simp add: hashPasswordCmd_def flag_Parse_def hash_flag_defaults_def)
qed

text \<open>
  C9 as stated fails: with an algorithm that is none of the three and a negative salt
  length, \<open>makePassword\<close> panics while making the salt and returns no error.
\<close>

theorem makePassword_negative_salt_counterexample:
  "makePassword sample_runtime ''secret'' ''md5'' 4096 32 (- 1) 8 =
     Panic ''makeslice: len out of range''"
  by (simp add: makePassword_def make_bytes_def)



theorem makePassword_algorithms_witness:
  "makePassword sample_runtime ''secret'' ''md5'' 4096 2 (- 1) 8 =
     Panic ''makeslice: len out of range'' \<and>
   makePassword sample_runtime ''secret'' ''bcrypt'' 4096 2 1 8 =
     Returns (\<lparr>Type = ''bcrypt'', Hash = [], Key = Some ''$2a$secret'', Salt = [],
               Iterations = 0\<rparr>, None) \<and>
   makePassword sample_runtime ''secret'' ''bcrypt'' 4096 2 1 32 =
     Returns (zero_Password, Some BcryptError) \<and>
   makePassword sample_runtime ''secret'' ''pbkdf2'' 4096 2 1 8 =
     Returns (\<lparr>Type = ''pbkdf2'', Hash = ''sha-256'', Key = Some ''6b6b'', Salt = ''73'',
               Iterations = 4096\<rparr>, None) \<and>
   makePassword sample_runtime ''secret'' ''pbkdf2'' 4096 (- 1) 1 8 =
     Panic ''slice bounds out of range'' \<and>
   makePassword sample_runtime ''secret'' ''md5'' 4096 2 1 8 =
     Returns (zero_Password, Some (ErrorString ''unknown password type'')) \<and>
   cost (flag_Parse [password_arg ''secret'']) = 8 \<and>
   saltlen (flag_Parse [password_arg ''secret'']) = 8 \<and>
   length_k (flag_Parse [password_arg ''secret'']) = 32 \<and>
   iterations (flag_Parse [password_arg ''secret'']) = 4096 \<and>
   hashPasswordCmd sample_runtime (Inl TermError) sample_Encode [password_arg ''secret''] [] =
     Returns \<lparr>Type = ''bcrypt'', Hash = [], Key = Some ''$2a$secret'', Salt = [],
              Iterations = 0\<rparr>"
proof -
  let ?salt = "map (random sample_runtime) [0 ..< nat 1]"
  have neg: "(- 1 :: int) < 0" by simp
  have salt: "(0::int) \<le> 1 \<and> allocate sample_runtime (nat 1) = Returns () \<and>
      rand_Read sample_runtime (nat 1) = Returns None"
    by (simp add: sample_runtime_def sample_allocate_def sample_rand_Read_def)
  have b8: "bcrypt_GenerateFromPassword sample_runtime ''secret'' 8 = Returns (Inr ''$2a$secret'')"
    by (simp add: sample_runtime_def sample_bcrypt_def)
  have b32: "bcrypt_GenerateFromPassword sample_runtime ''secret'' 32 = Returns (Inl BcryptError)"
    by (simp add: sample_runtime_def sample_bcrypt_def)
  have key: "pbkdf2_Key sample_runtime ''secret'' ?salt 4096 2 sha256_New = Returns ''kk''"
    by (simp add: sample_runtime_def sample_pbkdf2_Key_def numeral_2_eq_2)
  have al: "allocate sample_runtime (2 * length ''kk'') = Returns () \<and>
      allocate sample_runtime (2 * nat 1) = Returns ()"
    by (simp add: sample_runtime_def sample_allocate_def)
  have kl: "(0::int) \<le> 2" by simp
  have hk: "hex_Encode ''kk'' = ''6b6b''" by code_simp
  have hs: "hex_Encode ?salt = ''73''" by code_simp
  have md5: "''md5'' \<noteq> ''pbkdf2'' \<and> ''md5'' \<noteq> ''bcrypt'' \<and> ''md5'' \<noteq> ''wildcard''"
    by simp
  have fl1: "\<forall>n. cost_arg n \<notin> set [password_arg ''secret'']" by simp
  have fl2: "\<forall>n. salt_arg n \<notin> set [password_arg ''secret'']" by simp
  have fl3: "\<forall>n. key_arg n \<notin> set [password_arg ''secret'']" by simp
  have fl4: "\<forall>n. iterations_arg n \<notin> set [password_arg ''secret'']" by simp
  have c1: "makePassword sample_runtime ''secret'' ''md5'' 4096 2 (- 1) 8 =
     Panic ''makeslice: len out of range''"
    by (rule mp [OF makePassword_algorithms [where sl = "- 1" and rt = sample_runtime
        and alg = "''md5''" and pw = "''secret''" and it = 4096 and kl = 2 and c = 8, THEN conjunct1] neg])
  have c2: "makePassword sample_runtime ''secret'' ''bcrypt'' 4096 2 1 8 =
     Returns (\<lparr>Type = ''bcrypt'', Hash = [], Key = Some ''$2a$secret'', Salt = [],
               Iterations = 0\<rparr>, None)"
    using salt b8
    by (intro mp [OF makePassword_algorithms [where sl = 1 and rt = sample_runtime
        and pw = "''secret''" and it = 4096 and kl = 2 and c = 8 and k = "''$2a$secret''", THEN conjunct2, THEN conjunct2, THEN conjunct1]])
      simp
  have c3: "makePassword sample_runtime ''secret'' ''bcrypt'' 4096 2 1 32 =
     Returns (zero_Password, Some BcryptError)"
    using salt b32
    by (intro mp [OF makePassword_algorithms [where sl = 1 and rt = sample_runtime
        and pw = "''secret''" and it = 4096 and kl = 2 and c = 32 and e = BcryptError, THEN conjunct2, THEN conjunct2, THEN conjunct2, THEN conjunct1]])
      simp
  have c4: "makePassword sample_runtime ''secret'' ''pbkdf2'' 4096 2 1 8 =
     Returns (\<lparr>Type = ''pbkdf2'', Hash = ''sha-256'', Key = Some (hex_Encode ''kk''),
               Salt = hex_Encode ?salt, Iterations = 4096\<rparr>, None)"
    using salt key al kl
      mp [OF makePassword_algorithms [where sl = 1 and rt = sample_runtime
        and pw = "''secret''" and it = 4096 and kl = 2 and c = 8 and key = "''kk''", THEN conjunct2, THEN conjunct2, THEN conjunct2, THEN conjunct2, THEN conjunct2, THEN conjunct1],
        THEN conjunct1]
    by blast
  have c4n: "makePassword sample_runtime ''secret'' ''pbkdf2'' 4096 (- 1) 1 8 =
     Panic ''slice bounds out of range''"
    using salt neg
    by (intro mp [OF makePassword_algorithms [where sl = 1 and rt = sample_runtime
        and pw = "''secret''" and it = 4096 and kl = "- 1" and c = 8, THEN conjunct2, THEN conjunct2, THEN conjunct2, THEN conjunct2, THEN conjunct1]])
      simp
  have c5: "makePassword sample_runtime ''secret'' ''md5'' 4096 2 1 8 =
     Returns (zero_Password, Some (ErrorString ''unknown password type''))"
    using salt
      mp [OF mp [OF makePassword_algorithms [where sl = 1 and rt = sample_runtime
        and pw = "''secret''" and it = 4096 and kl = 2 and c = 8 and alg = "''md5''", THEN conjunct2, THEN conjunct2, THEN conjunct2, THEN conjunct2, THEN conjunct2, THEN conjunct2, THEN conjunct1] md5,
        THEN conjunct2]]
    by blast
  have c6: "cost (flag_Parse [password_arg ''secret'']) = 8"
    by (rule mp [OF makePassword_algorithms [where args = "[password_arg ''secret'']", THEN conjunct2, THEN conjunct2, THEN conjunct2, THEN conjunct2, THEN conjunct2, THEN conjunct2, THEN conjunct2, THEN conjunct1] fl1])
  have c7: "saltlen (flag_Parse [password_arg ''secret'']) = 8"
    by (rule mp [OF makePassword_algorithms [where args = "[password_arg ''secret'']", THEN conjunct2, THEN conjunct2, THEN conjunct2, THEN conjunct2, THEN conjunct2, THEN conjunct2, THEN conjunct2, THEN conjunct2, THEN conjunct1] fl2])
  have c8: "length_k (flag_Parse [password_arg ''secret'']) = 32"
    by (rule mp [OF makePassword_algorithms [where args = "[password_arg ''secret'']", THEN conjunct2, THEN conjunct2, THEN conjunct2, THEN conjunct2, THEN conjunct2, THEN conjunct2, THEN conjunct2, THEN conjunct2, THEN conjunct2, THEN conjunct1] fl3])
  have c9: "iterations (flag_Parse [password_arg ''secret'']) = 4096"
    by (rule mp [OF makePassword_algorithms [where args = "[password_arg ''secret'']", THEN conjunct2, THEN conjunct2, THEN conjunct2, THEN conjunct2, THEN conjunct2, THEN conjunct2, THEN conjunct2, THEN conjunct2, THEN conjunct2, THEN conjunct2, THEN conjunct1] fl4])
  have d: "makePassword sample_runtime ''secret'' ''bcrypt'' 4096 32 8 8 =
     Returns (\<lparr>Type = ''bcrypt'', Hash = [], Key = Some ''$2a$secret'', Salt = [],
               Iterations = 0\<rparr>, None)"
    by (simp add: makePassword_def make_bytes_def sample_runtime_def sample_allocate_def
        sample_rand_Read_def sample_bcrypt_def)
  have ne: "''secret'' \<noteq> []" by simp
  have c10: "hashPasswordCmd sample_runtime (Inl TermError) sample_Encode
        [password_arg ''secret''] [] =
     Returns \<lparr>Type = ''bcrypt'', Hash = [], Key = Some ''$2a$secret'', Salt = [],
              Iterations = 0\<rparr>"
    using mp [OF makePassword_algorithms [where pw = "''secret''" and rt = sample_runtime
        and T = "Inl TermError" and E = sample_Encode, THEN conjunct2, THEN conjunct2, THEN conjunct2, THEN conjunct2, THEN conjunct2, THEN conjunct2, THEN conjunct2, THEN conjunct2, THEN conjunct2, THEN conjunct2, THEN conjunct2, THEN conjunct1] ne] d
    by (simp add: sample_Encode_def)
  show ?thesis
    using c1 c2 c3 c4 c4n c5 c6 c7 c8 c9 c10 hk hs by simp
qed

subsection \<open>WhipClient.NewConnection\<close>

lemma closed_detached_record:
  "(p :: PeerConnection)\<lparr>onICEConnectionStateChange := f, closed := True\<rparr> =
   \<lparr>closed = True, onICEConnectionStateChange = f\<rparr>"
  by (cases p) simp

lemma detach_close:
  "pc_Close h (OnICEConnectionStateChange h False w) =
   w\<lparr>pcs := (pcs w)[h := \<lparr>closed = True, onICEConnectionStateChange = False\<rparr>]\<rparr>"
proof (cases "h < length (pcs w)")
  case True
  then show ?thesis
    by (simp add: pc_Close_def OnICEConnectionStateChange_def closed_detached_record)
next
  case False
  then have "(pcs w)[h := \<lparr>closed = True, onICEConnectionStateChange = False\<rparr>] = pcs w"
    by (intro list_update_beyond) simp
  then show ?thesis
    using False by (simp add: pc_Close_def OnICEConnectionStateChange_def)
qed

lemma attach_detach_close:
  "pc_Close h (OnICEConnectionStateChange h False (OnICEConnectionStateChange h True w)) =
   w\<lparr>pcs := (pcs w)[h := \<lparr>closed = True, onICEConnectionStateChange = False\<rparr>]\<rparr>"
proof (cases "h < length (pcs w)")
  case True
  then show ?thesis
    by (simp add: pc_Close_def OnICEConnectionStateChange_def closed_detached_record)
next
  case False
  then have "(pcs w)[h := \<lparr>closed = True, onICEConnectionStateChange = False\<rparr>] = pcs w"
    by (intro list_update_beyond) simp
  then show ?thesis
    using False by (simp add: pc_Close_def OnICEConnectionStateChange_def)
qed

lemma NewConnection_dup:
  "connection c = Some old \<Longrightarrow> newUpConn c (client_id c) [] offer w = (Inr conn, w1) \<Longrightarrow>
   NewConnection newUpConn eng c w offer =
     (Returns (Inl (ErrorString ''duplicate connection'')), c,
      w1\<lparr>pcs := (pcs w1)[pc conn := \<lparr>closed = True, onICEConnectionStateChange = False\<rparr>]\<rparr>)"
  by (simp add: NewConnection_def Let_def attach_detach_close)

text \<open>
  C6.  When the client already has a connection and \<open>newUpConn\<close> has made a new
  one, \<open>NewConnection\<close> is rejected with the error "duplicate connection"; the client
  is unchanged, so the existing connection stays in place; the peer connection just
  created is closed and its callback detached; every other peer connection is
  untouched, and so are the groups and the callbacks delivered.
\<close>

theorem NewConnection_duplicate:
  assumes "connection c = Some old"
    and "newUpConn c (client_id c) [] offer w = (Inr conn, w1)"
  shows "NewConnection newUpConn eng c w offer =
           (Returns (Inl (ErrorString ''duplicate connection'')), c,
            w1\<lparr>pcs := (pcs w1)[pc conn :=
                    \<lparr>closed = True, onICEConnectionStateChange = False\<rparr>]\<rparr>) \<and>
         connection (fst (snd (NewConnection newUpConn eng c w offer))) = Some old \<and>
         (pc conn < length (pcs w1) \<longrightarrow>
            closed (pcs (snd (snd (NewConnection newUpConn eng c w offer))) ! pc conn) \<and>
            \<not> onICEConnectionStateChange
                (pcs (snd (snd (NewConnection newUpConn eng c w offer))) ! pc conn)) \<and>
         (\<forall>h. h \<noteq> pc conn \<longrightarrow>
            pcs (snd (snd (NewConnection newUpConn eng c w offer))) ! h = pcs w1 ! h)"
  using assms by (simp add: NewConnection_dup)

theorem NewConnection_duplicate_witness:
  "NewConnection (newUpConn_model None) sample_engine connected_client connected_world ''offer'' =
     (Returns (Inl (ErrorString ''duplicate connection'')), connected_client,
      connected_world\<lparr>pcs := [\<lparr>closed = False, onICEConnectionStateChange = True\<rparr>,
                               \<lparr>closed = True, onICEConnectionStateChange = False\<rparr>]\<rparr>) \<and>
   connection (fst (snd (NewConnection (newUpConn_model None) sample_engine connected_client
                           connected_world ''offer'')))
     = Some \<lparr>conn_id = ''whip1'', pc = 0\<rparr> \<and>
   pcs (snd (snd (NewConnection (newUpConn_model None) sample_engine connected_client
                    connected_world ''offer''))) ! 0
     = \<lparr>closed = False, onICEConnectionStateChange = True\<rparr>"
proof -
  have h: "connection connected_client = Some \<lparr>conn_id = ''whip1'', pc = 0\<rparr>"
    by (simp add: connected_client_def)
  have w: "pcs connected_world = [\<lparr>closed = False, onICEConnectionStateChange = True\<rparr>]"
    by (simp add: connected_world_def)
  have n: "newUpConn_model None connected_client (client_id connected_client) [] ''offer''
        connected_world =
      (Inr \<lparr>conn_id = ''whip1'', pc = 1\<rparr>,
       connected_world\<lparr>pcs := [\<lparr>closed = False, onICEConnectionStateChange = True\<rparr>,
                                \<lparr>closed = False, onICEConnectionStateChange = False\<rparr>]\<rparr>)"
    by (simp add: newUpConn_model_def connected_client_def sample_client_def w)
  show ?thesis
    using NewConnection_duplicate [where newUpConn = "newUpConn_model None"
        and eng = sample_engine, OF h n] w h
    by simp
qed

lemma NewConnection_failed_creation:
  "newUpConn c (client_id c) [] offer w = (Inl e, w1) \<Longrightarrow>
   NewConnection newUpConn eng c w offer = (Returns (Inl e), c, w1)"
  by (simp add: NewConnection_def)

lemma NewConnection_offer_failed:
  assumes "connection c = None"
    and "newUpConn c (client_id c) [] offer w = (Inr conn, w1)"
    and "NewConnection newUpConn eng c w offer = (Returns (Inl err), c', w')"
  shows "c' = c\<lparr>connection := Some conn\<rparr> \<and>
         w' = w1\<lparr>pcs := (pcs w1)[pc conn :=
                  \<lparr>closed = True, onICEConnectionStateChange = False\<rparr>]\<rparr>"
  using assms
  by (auto simp: NewConnection_def Let_def attach_detach_close
      split: outcome.splits sum.splits)

text \<open>
  C7, as the code has it.  When \<open>NewConnection\<close> returns an error, either \<open>newUpConn\<close>
  failed, and the client is unchanged and the world is as \<open>newUpConn\<close> left it, or the
  peer connection that \<open>newUpConn\<close> created is closed with its callback detached and
  nothing else is changed in the world.  The client is as it was before the call in
  every field other than its connection, and a call rejected as a duplicate leaves the
  client unchanged altogether.
\<close>

theorem NewConnection_error:
  assumes "NewConnection newUpConn eng c w offer = (Returns (Inl err), c', w')"
    and "newUpConn c (client_id c) [] offer w = (made, w1)"
  shows "(\<forall>e. made = Inl e \<longrightarrow> err = e \<and> c' = c \<and> w' = w1) \<and>
         (\<forall>conn. made = Inr conn \<longrightarrow>
            w' = w1\<lparr>pcs := (pcs w1)[pc conn :=
                     \<lparr>closed = True, onICEConnectionStateChange = False\<rparr>]\<rparr> \<and>
            (pc conn < length (pcs w1) \<longrightarrow>
               closed (pcs w' ! pc conn) \<and> \<not> onICEConnectionStateChange (pcs w' ! pc conn)) \<and>
            (connection c \<noteq> None \<longrightarrow>
               c' = c \<and> err = ErrorString ''duplicate connection'')) \<and>
         c'\<lparr>connection := connection c\<rparr> = c"
proof (cases made)
  case (Inl e)
  then show ?thesis
    using assms by (simp add: NewConnection_failed_creation)
next
  case (Inr conn)
  show ?thesis
  proof (cases "connection c")
    case (Some old)
    then show ?thesis using assms Inr by (auto simp: NewConnection_dup)
  next
    case None
    have eq: "c' = c\<lparr>connection := Some conn\<rparr> \<and>
        w' = w1\<lparr>pcs := (pcs w1)[pc conn :=
                  \<lparr>closed = True, onICEConnectionStateChange = False\<rparr>]\<rparr>"
      using NewConnection_offer_failed [OF None _ assms(1)] assms(2) Inr by simp
    show ?thesis using eq Inr None by auto
  qed
qed

text \<open>
  C7 as stated fails: when the context is cancelled during ICE gathering, the call
  returns the cancellation error and the peer connection is closed, but the client now
  holds the new connection, and the next call on it is rejected as a duplicate.
\<close>

theorem NewConnection_cancel_counterexample:
  "NewConnection (newUpConn_model None) cancelled_engine sample_client sample_world ''offer'' =
     (Returns (Inl ContextCanceled), connected_client,
      sample_world\<lparr>pcs := [\<lparr>closed = True, onICEConnectionStateChange = False\<rparr>]\<rparr>) \<and>
   connection sample_client = None \<and>
   connection connected_client = Some \<lparr>conn_id = ''whip1'', pc = 0\<rparr> \<and>
   fst (NewConnection (newUpConn_model None) sample_engine connected_client
          (sample_world\<lparr>pcs := [\<lparr>closed = True, onICEConnectionStateChange = False\<rparr>]\<rparr>)
          ''offer'') =
     Returns (Inl (ErrorString ''duplicate connection''))"
  by (simp add: NewConnection_def newUpConn_model_def gotOffer_def Let_def
      OnICEConnectionStateChange_def pc_Close_def
      cancelled_engine_def sample_engine_def sample_client_def sample_world_def
      connected_client_def)

theorem NewConnection_error_witness:
  "NewConnection (newUpConn_model None) cancelled_engine sample_client sample_world ''offer'' =
     (Returns (Inl ContextCanceled), connected_client,
      sample_world\<lparr>pcs := [\<lparr>closed = True, onICEConnectionStateChange = False\<rparr>]\<rparr>) \<and>
   closed (pcs (sample_world\<lparr>pcs := [\<lparr>closed = True,
                  onICEConnectionStateChange = False\<rparr>]\<rparr>) ! 0) \<and>
   connected_client\<lparr>connection := connection sample_client\<rparr> = sample_client"
proof -
  let ?conn = "\<lparr>conn_id = ''whip1'', pc = 0\<rparr>"
  let ?w' = "sample_world\<lparr>pcs := [\<lparr>closed = True, onICEConnectionStateChange = False\<rparr>]\<rparr>"
  let ?w1 = "sample_world\<lparr>pcs := [\<lparr>closed = False, onICEConnectionStateChange = False\<rparr>]\<rparr>"
  have run: "NewConnection (newUpConn_model None) cancelled_engine sample_client sample_world
      ''offer'' = (Returns (Inl ContextCanceled), connected_client, ?w')"
    by (simp add: NewConnection_def newUpConn_model_def gotOffer_def Let_def
      OnICEConnectionStateChange_def pc_Close_def
      cancelled_engine_def sample_engine_def sample_client_def sample_world_def
      connected_client_def)
  have made: "newUpConn_model None sample_client (client_id sample_client) [] ''offer''
      sample_world = (Inr ?conn, ?w1)"
    by (simp add: newUpConn_model_def sample_client_def sample_world_def)
  note T = NewConnection_error [where newUpConn = "newUpConn_model None", OF run made]
  have valid: "pc ?conn < length (pcs ?w1)"
    by simp
  have a: "closed (pcs ?w' ! pc ?conn)"
    by (rule T [THEN conjunct2, THEN conjunct1, THEN spec, THEN mp, OF refl,
          THEN conjunct2, THEN conjunct1, THEN mp, OF valid, THEN conjunct1])
  have a': "closed (pcs ?w' ! 0)"
    using a by simp
  have b: "connected_client\<lparr>connection := connection sample_client\<rparr> = sample_client"
    by (rule T [THEN conjunct2, THEN conjunct2])
  show ?thesis
    by (intro conjI) (rule run, rule a', rule b)
qed

subsection \<open>WhipClient.Close\<close>

lemma Close_no_group: "group c = None \<Longrightarrow> Close G D c w = (None, c, w)"
  by (simp add: Close_def)

lemma Close_no_connection:
  "group c = Some g \<Longrightarrow> connection c = None \<Longrightarrow>
   Close G D c w = (None, c\<lparr>group := None\<rparr>, D c w)"
  by (simp add: Close_def)

lemma Close_connection:
  "group c = Some g \<Longrightarrow> connection c = Some conn \<Longrightarrow>
   Close G D c w =
     (None, c\<lparr>connection := None, group := None\<rparr>,
      D (c\<lparr>connection := None\<rparr>)
        (w\<lparr>pcs := (pcs w)[pc conn := \<lparr>closed = True, onICEConnectionStateChange = False\<rparr>],
           delivered := delivered w @
             map (\<lambda>p. (p, PushConn g (conn_id conn) None [] []))
               (G g (c\<lparr>connection := None\<rparr>)
                  (w\<lparr>pcs := (pcs w)[pc conn :=
                         \<lparr>closed = True, onICEConnectionStateChange = False\<rparr>]\<rparr>))\<rparr>))"
  by (simp add: Close_def Let_def detach_close)

lemma Close_times_closed:
  "group c = None \<Longrightarrow> Close_times G D n c w = (None, c, w)"
  by (induction n) (simp_all add: Close_no_group)

text \<open>
  C8.  \<open>Close\<close> always returns nil and leaves the client without group.  Closing again,
  any number of times, returns nil and changes neither the client nor anything
  outside it, whatever \<open>GetClients\<close> and \<open>DelClient\<close> do.  A client without group is
  left as it is.  The first \<open>Close\<close> of a client in a group without connection runs
  \<open>DelClient\<close> and clears the group.  With a connection, it first detaches the
  callback, closes the peer connection and clears the connection, then delivers
  \<open>PushConn(group, id, nil, nil, "")\<close> to every client \<open>GetClients\<close> lists, then runs
  \<open>DelClient\<close> and clears the group.
\<close>

theorem Close_idempotent:
  assumes "Close G D c w = (r, c', w')"
  shows "r = None \<and> group c' = None \<and>
     Close G' D' c' w' = (None, c', w') \<and>
     Close_times G' D' n c' w' = (None, c', w') \<and>
     (group c = None \<longrightarrow> c' = c \<and> w' = w) \<and>
     (group c \<noteq> None \<and> connection c = None \<longrightarrow> c' = c\<lparr>group := None\<rparr> \<and> w' = D c w) \<and>
     (\<forall>g conn. group c = Some g \<and> connection c = Some conn \<longrightarrow>
        c' = c\<lparr>connection := None, group := None\<rparr> \<and>
        w' = D (c\<lparr>connection := None\<rparr>)
               (w\<lparr>pcs := (pcs w)[pc conn :=
                       \<lparr>closed = True, onICEConnectionStateChange = False\<rparr>],
                  delivered := delivered w @
                    map (\<lambda>p. (p, PushConn g (conn_id conn) None [] []))
                      (G g (c\<lparr>connection := None\<rparr>)
                         (w\<lparr>pcs := (pcs w)[pc conn :=
                                \<lparr>closed = True, onICEConnectionStateChange = False\<rparr>]\<rparr>))\<rparr>))"
proof (cases "group c")
  case None
  then have "c' = c \<and> w' = w \<and> r = None"
    using assms by (simp add: Close_no_group)
  then show ?thesis
    using None by (simp add: Close_no_group Close_times_closed)
next
  case (Some g)
  show ?thesis
  proof (cases "connection c")
    case None
    then have eq: "r = None \<and> c' = c\<lparr>group := None\<rparr> \<and> w' = D c w"
      using assms Some by (simp add: Close_no_connection)
    then have g': "group c' = None" by simp
    show ?thesis
      using eq g' Some None by (simp add: Close_no_group Close_times_closed)
  next
    case conn: (Some conn)
    have eq: "(r, c', w') =
     (None, c\<lparr>connection := None, group := None\<rparr>,
      D (c\<lparr>connection := None\<rparr>)
        (w\<lparr>pcs := (pcs w)[pc conn := \<lparr>closed = True, onICEConnectionStateChange = False\<rparr>],
           delivered := delivered w @
             map (\<lambda>p. (p, PushConn g (conn_id conn) None [] []))
               (G g (c\<lparr>connection := None\<rparr>)
                  (w\<lparr>pcs := (pcs w)[pc conn :=
                         \<lparr>closed = True, onICEConnectionStateChange = False\<rparr>]\<rparr>))\<rparr>))"
      using assms Close_connection [OF Some conn, of G D w] by simp
    then have g': "group c' = None" by simp
    show ?thesis
      using eq g' Some conn by (simp add: Close_no_group Close_times_closed)
  qed
qed

theorem Close_idempotent_witness:
  "fst (Close Group_GetClients group_DelClient connected_client connected_world) = None \<and>
   fst (snd (Close Group_GetClients group_DelClient connected_client connected_world)) =
     sample_client\<lparr>group := None\<rparr> \<and>
   Close_times Group_GetClients group_DelClient 3
       (fst (snd (Close Group_GetClients group_DelClient connected_client connected_world)))
       (snd (snd (Close Group_GetClients group_DelClient connected_client connected_world))) =
     (None,
      fst (snd (Close Group_GetClients group_DelClient connected_client connected_world)),
      snd (snd (Close Group_GetClients group_DelClient connected_client connected_world))) \<and>
   clients (snd (snd (Close Group_GetClients group_DelClient connected_client connected_world)))
       ''room'' = [''bob'', ''carol''] \<and>
   pcs (snd (snd (Close Group_GetClients group_DelClient connected_client connected_world))) =
     [\<lparr>closed = True, onICEConnectionStateChange = False\<rparr>] \<and>
   delivered (snd (snd (Close Group_GetClients group_DelClient connected_client connected_world))) =
     [(''bob'', PushConn ''room'' ''whip1'' None [] []),
      (''carol'', PushConn ''room'' ''whip1'' None [] []),
      (''bob'', PushClient ''room'' ''leave'' ''whip1''),
      (''carol'', PushClient ''room'' ''leave'' ''whip1'')]"
proof -
  let ?R = "Close Group_GetClients group_DelClient connected_client connected_world"
  have run: "?R = (fst ?R, fst (snd ?R), snd (snd ?R))"
    by simp
  have c: "group connected_client = Some ''room'' \<and>
      connection connected_client = Some \<lparr>conn_id = ''whip1'', pc = 0\<rparr> \<and>
      client_id connected_client = ''whip1''"
    by (simp add: connected_client_def sample_client_def)
  have w: "pcs connected_world = [\<lparr>closed = False, onICEConnectionStateChange = True\<rparr>] \<and>
      delivered connected_world = [] \<and>
      clients connected_world = room_members"
    by (simp add: connected_world_def sample_world_def)
  have cc: "connected_client\<lparr>connection := None, group := None\<rparr> = sample_client\<lparr>group := None\<rparr>"
    by (simp add: connected_client_def sample_client_def)
  note T = Close_idempotent [OF run, of Group_GetClients group_DelClient 3]
  have r: "fst ?R = None"
    using T by blast
  have times: "Close_times Group_GetClients group_DelClient 3 (fst (snd ?R)) (snd (snd ?R)) =
        (None, fst (snd ?R), snd (snd ?R))"
    using T by blast
  have both: "fst (snd ?R) = connected_client\<lparr>connection := None, group := None\<rparr> \<and>
      snd (snd ?R) =
        group_DelClient (connected_client\<lparr>connection := None\<rparr>)
          (connected_world\<lparr>pcs := (pcs connected_world)[pc \<lparr>conn_id = ''whip1'', pc = 0\<rparr> :=
                       \<lparr>closed = True, onICEConnectionStateChange = False\<rparr>],
             delivered := delivered connected_world @
               map (\<lambda>p. (p, PushConn ''room'' (conn_id \<lparr>conn_id = ''whip1'', pc = 0\<rparr>) None [] []))
                 (Group_GetClients ''room'' (connected_client\<lparr>connection := None\<rparr>)
                    (connected_world\<lparr>pcs := (pcs connected_world)[pc \<lparr>conn_id = ''whip1'', pc = 0\<rparr> :=
                           \<lparr>closed = True, onICEConnectionStateChange = False\<rparr>]\<rparr>))\<rparr>)"
    using T c by blast
  have full: "snd (snd ?R) =
      group_DelClient (connected_client\<lparr>connection := None\<rparr>)
        (connected_world\<lparr>pcs := [\<lparr>closed = True, onICEConnectionStateChange = False\<rparr>],
           delivered := map (\<lambda>p. (p, PushConn ''room'' ''whip1'' None [] []))
             (Group_GetClients ''room'' (connected_client\<lparr>connection := None\<rparr>)
                (connected_world\<lparr>pcs := [\<lparr>closed = True,
                    onICEConnectionStateChange = False\<rparr>]\<rparr>))\<rparr>) \<and>
      fst (snd ?R) = sample_client\<lparr>group := None\<rparr>"
    using both w cc by simp
  have ev: "group_DelClient (connected_client\<lparr>connection := None\<rparr>)
        (connected_world\<lparr>pcs := [\<lparr>closed = True, onICEConnectionStateChange = False\<rparr>],
           delivered := map (\<lambda>p. (p, PushConn ''room'' ''whip1'' None [] []))
             (Group_GetClients ''room'' (connected_client\<lparr>connection := None\<rparr>)
                (connected_world\<lparr>pcs := [\<lparr>closed = True,
                    onICEConnectionStateChange = False\<rparr>]\<rparr>))\<rparr>) =
      \<lparr>pcs = [\<lparr>closed = True, onICEConnectionStateChange = False\<rparr>],
       clients = room_members(''room'' := [''bob'', ''carol'']),
       delivered = [(''bob'', PushConn ''room'' ''whip1'' None [] []),
          (''carol'', PushConn ''room'' ''whip1'' None [] []),
          (''bob'', PushClient ''room'' ''leave'' ''whip1''),
          (''carol'', PushClient ''room'' ''leave'' ''whip1'')]\<rparr>"
    by (simp add: group_DelClient_def Group_GetClients_def connected_client_def
        sample_client_def connected_world_def sample_world_def room_members_def Let_def)
  show ?thesis
    using r times full ev by simp
qed

subsection \<open>The token store: invariant\<close>

lemma keyed_Nil: "keyed []"
  by (simp add: keyed_def)

lemma keyed_update: "keyed xs \<Longrightarrow> keyed (AList.update (Token t) t xs)"
proof -
  have "list_all (\<lambda>(k, t). Token t = k) xs \<Longrightarrow>
        list_all (\<lambda>(k, t). Token t = k) (AList.update (Token t) t xs)"
    by (induction xs) auto
  then show "keyed xs \<Longrightarrow> keyed (AList.update (Token t) t xs)"
    by (simp add: keyed_def distinct_update)
qed

lemma keyed_filter: "keyed xs \<Longrightarrow> keyed (filter P xs)"
  by (simp add: keyed_def distinct_map_filter list_all_iff)

lemma keyed_sort: "keyed xs \<Longrightarrow> keyed (sort_key fst xs)"
  by (simp add: keyed_def distinct_map list_all_iff)

lemma map_of_fold_update:
  "map_of (fold (\<lambda>t m. AList.update (Token t) t m) recs acc) =
   fold (\<lambda>t m. m(Token t \<mapsto> t)) recs (map_of acc)"
  by (induction recs arbitrary: acc) (simp_all add: update_conv')

lemma fold_upd_keyed:
  "list_all (\<lambda>(k, t). Token t = k) ys \<Longrightarrow>
   fold (\<lambda>t m. m(Token t \<mapsto> t)) (map snd ys) m0 = m0 ++ map_of (rev ys)"
  by (induction ys arbitrary: m0) (auto simp: map_add_upd_left)

lemma map_of_rev_distinct: "distinct (map fst ys) \<Longrightarrow> map_of (rev ys) = map_of ys"
  by (subst map_of_inject_set) (simp_all add: rev_map [symmetric])

lemma read_records_keyed: "keyed (read_records recs)"
proof -
  have "keyed acc \<Longrightarrow> keyed (fold (\<lambda>t m. AList.update (Token t) t m) recs acc)" for acc
    by (induction recs arbitrary: acc) (simp_all add: keyed_update)
  then show ?thesis by (simp add: read_records_def keyed_Nil)
qed

lemma read_written:
  "keyed xs \<Longrightarrow> map_of (read_records (map snd (sort_key fst xs))) = map_of xs"
proof -
  assume k: "keyed xs"
  then have ks: "keyed (sort_key fst xs)" by (rule keyed_sort)
  have "map_of (read_records (map snd (sort_key fst xs))) =
        map_of (rev (sort_key fst xs))"
    using ks by (simp add: read_records_def map_of_fold_update fold_upd_keyed keyed_def)
  also have "\<dots> = map_of (sort_key fst xs)"
    using ks by (simp add: map_of_rev_distinct keyed_def)
  also have "\<dots> = map_of xs"
    using k ks by (subst map_of_inject_set) (simp_all add: keyed_def)
  finally show ?thesis .
qed


lemma load_store_ok:
  "store_ok st fs \<Longrightarrow>
   tokens (load st fs) = tokens st \<and> filename (load st fs) = filename st \<and>
   store_ok (load st fs) fs"
  by (auto simp: store_ok_def load_def split: option.splits prod.splits)

lemma store_ok_in_sync: "store_ok st fs \<Longrightarrow> in_sync st fs"
  by (auto simp: store_ok_def in_sync_def reload_def load_def split: option.splits prod.splits)

lemma rewrite_fail: "\<not> writable fs \<Longrightarrow> rewrite st fs = (Some Internal, st, fs)"
  by (simp add: rewrite_def)

lemma rewrite_empty:
  "writable fs \<Longrightarrow> tokens st = [] \<Longrightarrow>
   rewrite st fs =
     (None, st\<lparr>modTime := None\<rparr>, fs\<lparr>files := (files fs)(filename st := None)\<rparr>)"
  by (simp add: rewrite_def)

lemma rewrite_nonempty:
  "writable fs \<Longrightarrow> tokens st \<noteq> [] \<Longrightarrow>
   rewrite st fs =
     (None, st\<lparr>modTime := Some (Suc (clock fs))\<rparr>,
      fs\<lparr>files := (files fs)(filename st \<mapsto>
              (Suc (clock fs), map snd (sort_key fst (tokens st)))),
         clock := Suc (clock fs)\<rparr>)"
  by (simp add: rewrite_def Let_def)

lemma rewrite_store_ok:
  assumes "keyed (tokens st)" "rewrite st fs = (None, st', fs')"
  shows "store_ok st' fs' \<and> tokens st' = tokens st \<and> filename st' = filename st \<and>
         writable fs' = writable fs"
proof (cases "writable fs")
  case False
  then show ?thesis using assms by (simp add: rewrite_fail)
next
  case True
  show ?thesis
  proof (cases "tokens st = []")
    case e: True
    then show ?thesis
      using assms True by (auto simp: rewrite_empty store_ok_def)
  next
    case ne: False
    then show ?thesis
      using assms True by (auto simp: rewrite_nonempty store_ok_def read_written)
  qed
qed

lemma commit_fail: "\<not> writable fs \<Longrightarrow> commit t st fs = (Inl Internal, st, fs)"
  by (simp add: commit_def rewrite_fail)

lemma commit_written:
  "writable fs \<Longrightarrow>
   commit t st fs =
     (Inr t,
      st\<lparr>tokens := AList.update (Token t) t (tokens st), modTime := Some (Suc (clock fs))\<rparr>,
      fs\<lparr>files := (files fs)(filename st \<mapsto>
              (Suc (clock fs),
               map snd (sort_key fst (AList.update (Token t) t (tokens st))))),
         clock := Suc (clock fs)\<rparr>)"
  by (simp add: commit_def rewrite_nonempty)

lemma commit_store_ok:
  assumes "store_ok st fs" "commit t st fs = (r, st', fs')"
  shows "store_ok st' fs' \<and> filename st' = filename st \<and> writable fs' = writable fs"
proof (cases "writable fs")
  case False
  then show ?thesis using assms by (simp add: commit_fail)
next
  case True
  have k: "keyed (AList.update (Token t) t (tokens st))"
    using assms(1) by (simp add: store_ok_def keyed_update)
  show ?thesis
    using assms(2) True k
    by (auto simp: commit_written store_ok_def read_written)
qed

lemma Update_mismatch:
  "map_of (tokens (load st fs)) (Token t) = Some old \<Longrightarrow>
   ifMatch = [] \<or> ifMatch \<noteq> hash old \<Longrightarrow>
   Update hash t ifMatch st fs = (Inl ErrTagMismatch, load st fs, fs)"
  by (simp add: Update_def Let_def)

lemma Update_match:
  "map_of (tokens (load st fs)) (Token t) = Some old \<Longrightarrow>
   ifMatch \<noteq> [] \<Longrightarrow> ifMatch = hash old \<Longrightarrow>
   Update hash t ifMatch st fs = commit t (load st fs) fs"
  by (simp add: Update_def Let_def)

lemma Update_store_ok:
  assumes "store_ok st fs" "Update hash t ifMatch st fs = (r, st', fs')"
  shows "store_ok st' fs' \<and> filename st' = filename st \<and> writable fs' = writable fs"
proof -
  have l: "store_ok (load st fs) fs \<and> filename (load st fs) = filename st"
    using assms(1) by (simp add: load_store_ok)
  have "(st' = load st fs \<and> fs' = fs) \<or> commit t (load st fs) fs = (r, st', fs')"
    using assms(2) by (auto simp: Update_def Let_def split: option.splits if_splits)
  then show ?thesis
    using l commit_store_ok [of "load st fs" fs t r st' fs'] by auto
qed

lemma Expire_store_ok:
  assumes "store_ok st fs" "Expire now st fs = (r, st', fs')"
  shows "store_ok st' fs' \<and> filename st' = filename st \<and> writable fs' = writable fs"
proof -
  let ?st1 = "load st fs"
  let ?keep = "filter (\<lambda>(k, t). \<not> expired now t) (tokens ?st1)"
  have l: "store_ok ?st1 fs \<and> filename ?st1 = filename st"
    using assms(1) by (simp add: load_store_ok)
  have k: "keyed (tokens (?st1\<lparr>tokens := ?keep\<rparr>))"
    using l by (simp add: store_ok_def keyed_filter)
  have "(st' = ?st1 \<and> fs' = fs) \<or>
        (r = None \<and> rewrite (?st1\<lparr>tokens := ?keep\<rparr>) fs = (None, st', fs'))"
    using assms(2)
    by (auto simp: Expire_def Let_def split: if_splits prod.splits option.splits)
  then show ?thesis
    using l rewrite_store_ok [OF k, of fs st' fs'] by auto
qed

lemma apply_op_store_ok:
  assumes "store_ok st fs" "apply_op hash x (st, fs) = (st', fs')"
  shows "store_ok st' fs' \<and> filename st' = filename st \<and> writable fs' = writable fs"
proof (cases x)
  case (OpUpdate t ifMatch)
  then have "Update hash t ifMatch st fs = (fst (Update hash t ifMatch st fs), st', fs')"
    using assms(2) by (cases "Update hash t ifMatch st fs") simp
  then show ?thesis using assms(1) Update_store_ok by blast
next
  case (OpExpire now)
  then have "Expire now st fs = (fst (Expire now st fs), st', fs')"
    using assms(2) by (cases "Expire now st fs") simp
  then show ?thesis using assms(1) Expire_store_ok by blast
qed

lemma run_store_ok:
  "store_ok st fs \<Longrightarrow> run hash ops (st, fs) = (st', fs') \<Longrightarrow>
   store_ok st' fs' \<and> filename st' = filename st \<and> writable fs' = writable fs"
proof (induction ops arbitrary: st fs)
  case Nil
  then show ?case by (simp add: run_def)
next
  case (Cons x ops)
  obtain st1 fs1 where s1: "apply_op hash x (st, fs) = (st1, fs1)"
    by (cases "apply_op hash x (st, fs)")
  have ok1: "store_ok st1 fs1 \<and> filename st1 = filename st \<and> writable fs1 = writable fs"
    using Cons.prems(1) s1 by (rule apply_op_store_ok)
  have "run hash ops (st1, fs1) = (st', fs')"
    using Cons.prems(2) s1 by (simp add: run_def)
  then show ?case using Cons.IH [of st1 fs1] ok1 by simp
qed

lemma new_store_ok: "store_ok (new_store name) empty_fs"
  by (simp add: store_ok_def new_store_def empty_fs_def keyed_Nil)

lemma load_new_store_ok: "store_ok (load (new_store name) fs) fs"
  using read_records_keyed
  by (auto simp: store_ok_def load_def new_store_def keyed_Nil split: option.splits)

subsection \<open>Update\<close>

text \<open>
  C2.  When the store holds a record with the token value of \<open>t\<close>, \<open>Update\<close> with an
  empty ETag, or with one that differs from the hash of the stored record, fails with
  \<open>ErrTagMismatch\<close> and changes neither map nor file.  With the hash of the stored
  record and a file system that can be written, it returns the new record, the map
  holds the new record under its token value, and the file read back is the map.  When
  the file cannot be written the call fails with \<open>Internal\<close>, map and file untouched.
\<close>

theorem Update_existing:
  assumes "store_ok st fs" and "map_of (tokens st) (Token t) = Some old"
    and "Update hash t ifMatch st fs = (r, st', fs')"
  shows "(ifMatch = [] \<or> ifMatch \<noteq> hash old \<longrightarrow>
            r = Inl ErrTagMismatch \<and> tokens st' = tokens st \<and> fs' = fs) \<and>
         (ifMatch \<noteq> [] \<and> ifMatch = hash old \<and> writable fs \<longrightarrow>
            r = Inr t \<and>
            map_of (tokens st') = (map_of (tokens st))(Token t \<mapsto> t) \<and>
            readTokenFile fs' (filename st) = Returns (map snd (sort_key fst (tokens st'))) \<and>
            in_sync st' fs') \<and>
         (ifMatch \<noteq> [] \<and> ifMatch = hash old \<and> \<not> writable fs \<longrightarrow>
            r = Inl Internal \<and> tokens st' = tokens st \<and> fs' = fs)"
proof -
  have l: "tokens (load st fs) = tokens st \<and> filename (load st fs) = filename st"
    using assms(1) by (simp add: load_store_ok)
  then have ex: "map_of (tokens (load st fs)) (Token t) = Some old"
    using assms(2) by simp
  have ok': "store_ok st' fs'"
    using assms(1,3) Update_store_ok by blast
  show ?thesis
  proof (intro conjI impI)
    assume m: "ifMatch = [] \<or> ifMatch \<noteq> hash old"
    have u: "Update hash t ifMatch st fs = (Inl ErrTagMismatch, load st fs, fs)"
      using ex m by (rule Update_mismatch)
    show "r = Inl ErrTagMismatch" using u assms(3) by simp
    show "tokens st' = tokens st" using u assms(3) l by auto
    show "fs' = fs" using u assms(3) by simp
  next
    assume m: "ifMatch \<noteq> [] \<and> ifMatch = hash old \<and> writable fs"
    have u: "Update hash t ifMatch st fs = commit t (load st fs) fs"
      using ex m Update_match by blast
    have c: "(r, st', fs') =
       (Inr t,
        (load st fs)\<lparr>tokens := AList.update (Token t) t (tokens (load st fs)),
                     modTime := Some (Suc (clock fs))\<rparr>,
        fs\<lparr>files := (files fs)(filename (load st fs) \<mapsto>
              (Suc (clock fs),
               map snd (sort_key fst (AList.update (Token t) t (tokens (load st fs)))))),
           clock := Suc (clock fs)\<rparr>)"
      using u m assms(3) commit_written [of fs t "load st fs"] by simp
    show "r = Inr t" using c by simp
    show "map_of (tokens st') = (map_of (tokens st))(Token t \<mapsto> t)"
      using c l by (simp add: update_conv')
    show "readTokenFile fs' (filename st) = Returns (map snd (sort_key fst (tokens st')))"
      using c l by (simp add: readTokenFile_def)
    show "in_sync st' fs'" using ok' by (rule store_ok_in_sync)
  next
    assume m: "ifMatch \<noteq> [] \<and> ifMatch = hash old \<and> \<not> writable fs"
    have u: "Update hash t ifMatch st fs = commit t (load st fs) fs"
      using ex m Update_match by blast
    have "commit t (load st fs) fs = (Inl Internal, load st fs, fs)"
      using m by (simp add: commit_fail)
    then have c: "(r, st', fs') = (Inl Internal, load st fs, fs)"
      using u assms(3) by metis
    show "r = Inl Internal" using c by simp
    show "tokens st' = tokens st" using c l by auto
    show "fs' = fs" using c by simp
  qed
qed


theorem Update_existing_witness:
  "fst (Update sample_hash (edited_token 1700000000000000000) []
          (fst (storage_store 1700000000000000000)) (snd (storage_store 1700000000000000000)))
     = Inl ErrTagMismatch \<and>
   fst (Update sample_hash (edited_token 1700000000000000000) ''bad''
          (fst (storage_store 1700000000000000000)) (snd (storage_store 1700000000000000000)))
     = Inl ErrTagMismatch \<and>
   fst (Update sample_hash (edited_token 1700000000000000000) ''etag-tok2presentrecordmessage''
          (fst (storage_store 1700000000000000000)) (snd (storage_store 1700000000000000000)))
     = Inr (edited_token 1700000000000000000) \<and>
   readTokenFile
     (snd (snd (Update sample_hash (edited_token 1700000000000000000)
                  ''etag-tok2presentrecordmessage''
                  (fst (storage_store 1700000000000000000))
                  (snd (storage_store 1700000000000000000)))))
     ''test.jsonl''
     = Returns [storage_tokens 1700000000000000000 ! 0, edited_token 1700000000000000000,
                storage_tokens 1700000000000000000 ! 2]"
proof -
  let ?n = "1700000000000000000 :: int"
  let ?st = "fst (storage_store ?n)"
  let ?fs = "snd (storage_store ?n)"
  let ?old = "storage_tokens ?n ! 1"
  let ?U = "\<lambda>e. Update sample_hash (edited_token ?n) e ?st ?fs"
  have run: "run sample_hash (map (\<lambda>t. OpUpdate t []) (storage_tokens ?n))
      (new_store ''test.jsonl'', empty_fs) = (?st, ?fs)"
    by (simp add: storage_store_def)
  have ok: "store_ok ?st ?fs \<and> filename ?st = ''test.jsonl'' \<and> writable ?fs"
    using run_store_ok [OF new_store_ok run] by (simp add: new_store_def empty_fs_def)
  have ex: "map_of (tokens ?st) (Token (edited_token ?n)) = Some ?old"
    by code_simp
  have h: "sample_hash ?old = ''etag-tok2presentrecordmessage''"
    by code_simp
  have sorted: "map snd (sort_key fst (tokens (fst (snd (?U ''etag-tok2presentrecordmessage''))))) =
      [storage_tokens ?n ! 0, edited_token ?n, storage_tokens ?n ! 2]"
    by code_simp
  have u: "?U e = (fst (?U e), fst (snd (?U e)), snd (snd (?U e)))" for e
    by simp
  have a: "fst (?U []) = Inl ErrTagMismatch"
    using Update_existing [OF conjunct1 [OF ok] ex u [of "[]"]] by simp
  have b: "fst (?U ''bad'') = Inl ErrTagMismatch"
    using Update_existing [OF conjunct1 [OF ok] ex u [of "''bad''"]] h by simp
  have c: "fst (?U ''etag-tok2presentrecordmessage'') = Inr (edited_token ?n) \<and>
      readTokenFile (snd (snd (?U ''etag-tok2presentrecordmessage''))) (filename ?st) =
        Returns (map snd (sort_key fst (tokens (fst (snd (?U ''etag-tok2presentrecordmessage''))))))"
    using Update_existing [OF conjunct1 [OF ok] ex u [of "''etag-tok2presentrecordmessage''"]] h ok
    by simp
  show ?thesis
    using a b c sorted ok by simp
qed

subsection \<open>Expire\<close>

lemma filter_same_length: "length (filter P xs) = length xs \<Longrightarrow> filter P xs = xs"
proof (induction xs)
  case Nil
  then show ?case by simp
next
  case (Cons x xs)
  have le: "length (filter P xs) \<le> length xs" by simp
  show ?case
  proof (cases "P x")
    case True
    then show ?thesis using Cons by simp
  next
    case False
    then show ?thesis using Cons.prems le by simp
  qed
qed

lemma expired_iff:
  "expired now t \<longleftrightarrow> (\<exists>e. Expires t = Some e \<and> e < now - 7 * 24 * Hour)"
  by (simp add: expired_def split: option.splits)

lemma Expire_result:
  assumes "store_ok st fs" "writable fs"
  shows "\<exists>st' fs'. Expire now st fs = (None, st', fs') \<and>
           tokens st' = filter (\<lambda>(k, t). \<not> expired now t) (tokens st)"
proof -
  let ?st1 = "load st fs"
  let ?keep = "filter (\<lambda>(k, t). \<not> expired now t) (tokens ?st1)"
  have l: "tokens ?st1 = tokens st" using assms(1) by (simp add: load_store_ok)
  show ?thesis
  proof (cases "length ?keep = length (tokens ?st1)")
    case True
    then have "?keep = tokens ?st1" by (rule filter_same_length)
    then show ?thesis using True l by (simp add: Expire_def Let_def)
  next
    case False
    have "\<exists>st' fs'. rewrite (?st1\<lparr>tokens := ?keep\<rparr>) fs = (None, st', fs') \<and>
            tokens st' = ?keep"
      using assms(2) by (simp add: rewrite_def Let_def)
    then show ?thesis using False l by (auto simp: Expire_def Let_def)
  qed
qed

text \<open>
  C3.  On a store that satisfies its invariant and can write its file, \<open>Expire\<close>
  succeeds and keeps exactly the tokens whose expiry is not more than seven days in the
  past: a token is removed exactly when its expiry is set and earlier than
  \<open>now - 7 * 24 * Hour\<close>.  The file read back afterwards is the map in memory.  The
  scenario of \<open>TestExpire\<close> is the witness below.
\<close>

theorem Expire_removes:
  assumes "store_ok st fs" and "writable fs" and "Expire now st fs = (r, st', fs')"
  shows "r = None \<and>
         tokens st' = filter (\<lambda>(k, t). \<not> expired now t) (tokens st) \<and>
         (\<forall>k t. (k, t) \<in> set (tokens st') \<longleftrightarrow>
            (k, t) \<in> set (tokens st) \<and>
            \<not> (\<exists>e. Expires t = Some e \<and> e < now - 7 * 24 * Hour)) \<and>
         in_sync st' fs'"
proof -
  obtain st2 fs2 where e: "Expire now st fs = (None, st2, fs2)"
    and k: "tokens st2 = filter (\<lambda>(k, t). \<not> expired now t) (tokens st)"
    using Expire_result [OF assms(1,2)] by blast
  have eq: "r = None \<and> st' = st2 \<and> fs' = fs2" using e assms(3) by simp
  have ok': "store_ok st' fs'" using assms(1,3) Expire_store_ok by blast
  have mem: "\<forall>k t. (k, t) \<in> set (tokens st') \<longleftrightarrow>
            (k, t) \<in> set (tokens st) \<and>
            \<not> (\<exists>e. Expires t = Some e \<and> e < now - 7 * 24 * Hour)"
    using eq k by (auto simp: expired_iff)
  show ?thesis
    using eq k mem store_ok_in_sync [OF ok'] by simp
qed

theorem Expire_removes_witness:
  "fst (Expire 1700000000000000000 (fst (expire_store 1700000000000000000))
          (snd (expire_store 1700000000000000000))) = None \<and>
   map snd (tokens (fst (snd (Expire 1700000000000000000
          (fst (expire_store 1700000000000000000))
          (snd (expire_store 1700000000000000000)))))) =
     butlast (expire_tokens 1700000000000000000) \<and>
   map snd (tokens (fst (expire_store 1700000000000000000))) =
     expire_tokens 1700000000000000000 \<and>
   readTokenFile (snd (snd (Expire 1700000000000000000
          (fst (expire_store 1700000000000000000))
          (snd (expire_store 1700000000000000000))))) ''test.jsonl'' =
     Returns (butlast (expire_tokens 1700000000000000000))"
proof -
  let ?n = "1700000000000000000 :: int"
  let ?st = "fst (expire_store ?n)"
  let ?fs = "snd (expire_store ?n)"
  let ?E = "Expire ?n ?st ?fs"
  have run: "run sample_hash (map (\<lambda>t. OpUpdate t []) (expire_tokens ?n))
      (new_store ''test.jsonl'', empty_fs) = (?st, ?fs)"
    by (simp add: expire_store_def)
  have ok: "store_ok ?st ?fs \<and> filename ?st = ''test.jsonl'' \<and> writable ?fs"
    using run_store_ok [OF new_store_ok run] by (simp add: new_store_def empty_fs_def)
  have e: "?E = (fst ?E, fst (snd ?E), snd (snd ?E))"
    by simp
  have before: "map snd (tokens ?st) = expire_tokens ?n"
    by code_simp
  have kept: "map snd (filter (\<lambda>(k, t). \<not> expired ?n t) (tokens ?st)) =
      butlast (expire_tokens ?n)"
    by code_simp
  have onfile: "readTokenFile (snd (snd ?E)) ''test.jsonl'' = Returns (butlast (expire_tokens ?n))"
    by code_simp
  have "fst ?E = None \<and>
      tokens (fst (snd ?E)) = filter (\<lambda>(k, t). \<not> expired ?n t) (tokens ?st)"
    using Expire_removes [OF conjunct1 [OF ok] _ e] ok by simp
  then show ?thesis
    using kept before onfile by simp
qed

subsection \<open>The store and its file\<close>

text \<open>
  C4.  From a store that satisfies its invariant, such as a new store on a file system
  without its file, any sequence of \<open>Update\<close> and \<open>Expire\<close> calls, successful or not,
  ends in a store that satisfies the invariant again; re-reading the file then yields
  the map in memory, with the same keys and equal records.
\<close>

theorem run_in_sync:
  assumes "store_ok st fs" and "run hash ops (st, fs) = (st', fs')"
  shows "in_sync st' fs' \<and> store_ok st' fs' \<and>
         map_of (tokens (reload st' fs')) = map_of (tokens st') \<and>
         (\<forall>k t. map_of (tokens st') k = Some t \<longrightarrow> Token t = k)"
proof -
  have ok: "store_ok st' fs'" using run_store_ok [OF assms] by simp
  then have s: "in_sync st' fs'" by (rule store_ok_in_sync)
  have "\<forall>k t. (k, t) \<in> set (tokens st') \<longrightarrow> Token t = k"
    using ok by (auto simp: store_ok_def keyed_def list_all_iff)
  then have "\<forall>k t. map_of (tokens st') k = Some t \<longrightarrow> Token t = k"
    using map_of_SomeD by fast
  then show ?thesis using ok s by (simp add: in_sync_def)
qed

theorem run_in_sync_witness:
  "in_sync (fst (run sample_hash
       [OpUpdate (edited_token 1700000000000000000) ''etag-tok2presentrecordmessage'',
        OpExpire 1800000000000000000]
       (storage_store 1700000000000000000)))
     (snd (run sample_hash
       [OpUpdate (edited_token 1700000000000000000) ''etag-tok2presentrecordmessage'',
        OpExpire 1800000000000000000]
       (storage_store 1700000000000000000))) \<and>
   tokens (fst (run sample_hash
       [OpUpdate (edited_token 1700000000000000000) ''etag-tok2presentrecordmessage'',
        OpExpire 1800000000000000000]
       (storage_store 1700000000000000000))) = [] \<and>
   map snd (tokens (fst (run sample_hash
       [OpUpdate (edited_token 1700000000000000000) ''etag-tok2presentrecordmessage'']
       (storage_store 1700000000000000000)))) =
     [storage_tokens 1700000000000000000 ! 0, edited_token 1700000000000000000,
      storage_tokens 1700000000000000000 ! 2]"
proof -
  let ?n = "1700000000000000000 :: int"
  let ?ops = "map (\<lambda>t. OpUpdate t []) (storage_tokens ?n) @
       [OpUpdate (edited_token ?n) ''etag-tok2presentrecordmessage'',
        OpExpire 1800000000000000000]"
  let ?R = "run sample_hash
       [OpUpdate (edited_token ?n) ''etag-tok2presentrecordmessage'',
        OpExpire 1800000000000000000]
       (storage_store ?n)"
  have r: "run sample_hash ?ops (new_store ''test.jsonl'', empty_fs) = (fst ?R, snd ?R)"
    by (simp add: storage_store_def run_def)
  have a: "tokens (fst ?R) = []"
    by code_simp
  have b: "map snd (tokens (fst (run sample_hash
       [OpUpdate (edited_token ?n) ''etag-tok2presentrecordmessage'']
       (storage_store ?n)))) =
     [storage_tokens ?n ! 0, edited_token ?n, storage_tokens ?n ! 2]"
    by code_simp
  show ?thesis
    using run_in_sync [OF new_store_ok r] a b by simp
qed

text \<open>
  C5.  Rewriting a store whose map is empty, on a file system that can be written,
  succeeds and leaves no file: a stat of the store's file name reports that the file
  does not exist, whether or not the file existed before.
\<close>

theorem rewrite_empty_removes_file:
  assumes "tokens st = []" and "writable fs" and "rewrite st fs = (r, st', fs')"
  shows "r = None \<and> os_Stat fs' (filename st) = Inl ErrNotExist \<and>
         files fs' (filename st) = None \<and>
         (\<forall>name. name \<noteq> filename st \<longrightarrow> files fs' name = files fs name) \<and>
         tokens st' = []"
  using assms by (auto simp: rewrite_empty os_Stat_def)

theorem rewrite_empty_removes_file_witness:
  "fst (rewrite (emptied_store 1700000000000000000) (snd (storage_store 1700000000000000000)))
     = None \<and>
   os_Stat (snd (storage_store 1700000000000000000)) ''test.jsonl'' = Inr 3 \<and>
   os_Stat (snd (snd (rewrite (emptied_store 1700000000000000000)
                        (snd (storage_store 1700000000000000000))))) ''test.jsonl''
     = Inl ErrNotExist"
proof -
  let ?n = "1700000000000000000 :: int"
  let ?st = "emptied_store ?n"
  let ?fs = "snd (storage_store ?n)"
  let ?W = "rewrite ?st ?fs"
  have e: "tokens ?st = []" by (simp add: emptied_store_def)
  have w: "writable ?fs" by code_simp
  have f: "filename ?st = ''test.jsonl''" by code_simp
  have before: "os_Stat ?fs ''test.jsonl'' = Inr 3" by code_simp
  have run: "?W = (fst ?W, fst (snd ?W), snd (snd ?W))" by simp
  show ?thesis
    using rewrite_empty_removes_file [OF e w run] f before by simp
qed

end
